theory Spec2Isabelle
  imports Complex_Main
begin

section \<open>Highlight extraction: the script \<open>extract_highlight.py\<close>\<close>

text \<open>
  The script loads an audio file, computes an onset-strength curve, sums it over a
  sliding window of five seconds, takes the window of largest sum and reports a clip of at
  most twenty seconds starting there.

  Conventions of the embedding.
  \<^item> Python and NumPy floats are values of \<^typ>\<open>real\<close>. Rounding to double precision is
    written out, with the function \<open>fl\<close>, in the two places where the printed energy
    ratio depends on it: the additions and the division of \<open>np.mean\<close> and the quotient of
    line 64. The other float operations (frame times, the track duration, the window sums
    of the convolution, the arithmetic of lines 68 to 73) are exact. There is no NaN and no
    infinity; where Python raises on a float operation (division by zero) the model raises
    too.
  \<^item> An exception is a value of \<open>pyexc\<close>; a computation that may raise returns
    \<open>pyexc + 'a\<close> with \<open>Inl\<close> for the exception.
  \<^item> What librosa computes from the audio content (the decoded samples, the rhythm, the
    spectral flux behind the onset envelope) and the text of \<open>traceback.format_exc\<close> are
    parameters of the model, collected in the record \<open>librosa\<close>. What the library fixes
    whatever the content is written out: the sample rate \<open>librosa.load\<close> returns, the
    sign of the onset envelope, and the arithmetic helpers of librosa and NumPy that the
    script calls (\<open>get_duration\<close>, \<open>frames_to_time\<close>, \<open>np.ones\<close>, \<open>np.convolve\<close>,
    \<open>np.argmax\<close>, \<open>np.mean\<close>).
  \<^item> Standard output is the list of objects handed to \<open>json.dumps\<close>, each an association
    list in key order; the diagnostic log is a list of entries, one per \<open>log_debug\<close> call,
    holding the values that the format string interpolates.
\<close>

subsection \<open>Exceptions and values\<close>

datatype pyexc =
    ValueError string
  | ZeroDivisionError string
  | LibraryError string

fun str_exc :: "pyexc \<Rightarrow> string" where
  "str_exc (ValueError m) = m"
| "str_exc (ZeroDivisionError m) = m"
| "str_exc (LibraryError m) = m"

type_synonym waveform = "real list"

text \<open>
  \<open>beat_track\<close> returns the tempo either as a scalar or wrapped in an array, depending on
  the library version; line 46 of the script unwraps the array with \<open>.item()\<close>.
\<close>

datatype tempo_value = TempoScalar real | TempoArray "real list"

fun tempo_item :: "tempo_value \<Rightarrow> pyexc + real" where
  "tempo_item (TempoScalar t) = Inr t"
| "tempo_item (TempoArray [t]) = Inr t"
| "tempo_item (TempoArray ts) =
     Inl (ValueError ''can only convert an array of size 1 to a Python scalar'')"

datatype jvalue = JString string | JNumber real

type_synonym json_object = "(string \<times> jvalue) list"

datatype log_entry =
    LogProcessing string
  | LogDuration real
  | LogTempo real
  | LogBeats nat
  | LogRatio real
  | LogAdjust real
  | LogSelected real real

subsection \<open>Rounding to double precision\<close>

text \<open>
  An IEEE 754 double has 53 significant bits. \<open>fl x\<close> is the double nearest to \<open>x\<close>, ties
  going to the even significand, which is what every float addition and division of the
  machine returns for the exact result \<open>x\<close>. The exponent range is not bounded: overflow
  and underflow are not modelled.
\<close>

definition round_half_even :: "real \<Rightarrow> int" where
  "round_half_even x =
     (let f = \<lfloor>x\<rfloor>; r = x - real_of_int f
      in if r < 1 / 2 then f else if 1 / 2 < r then f + 1 else if even f then f else f + 1)"

text \<open>
  The binade of a positive number: the exponent \<open>e\<close> with \<open>2^e \<le> x < 2^(e+1)\<close>, found by
  halving a number that is at least 2 and doubling one that is below 1.
\<close>

function binade_up :: "real \<Rightarrow> nat" where
  "binade_up x = (if x < 2 then 0 else Suc (binade_up (x / 2)))"
  by auto
termination
proof (relation "measure (\<lambda>x. nat \<lfloor>x\<rfloor>)")
  show "wf (measure (\<lambda>x. nat \<lfloor>x\<rfloor>))" by simp
next
  fix x :: real assume "\<not> x < 2"
  then have "\<lfloor>x / 2\<rfloor> < \<lfloor>x\<rfloor>" "0 < \<lfloor>x\<rfloor>" by linarith+
  then show "(x / 2, x) \<in> measure (\<lambda>x. nat \<lfloor>x\<rfloor>)" by simp
qed

function binade_down :: "real \<Rightarrow> nat" where
  "binade_down x = (if 1 \<le> x \<or> x \<le> 0 then 0 else Suc (binade_down (2 * x)))"
  by auto
termination
proof (relation "measure (\<lambda>x. nat \<lceil>1 / x\<rceil>)")
  show "wf (measure (\<lambda>x. nat \<lceil>1 / x\<rceil>))" by simp
next
  fix x :: real assume "\<not> (1 \<le> x \<or> x \<le> 0)"
  then have x: "0 < x" "x < 1" by auto
  then have y: "1 < 1 / x" by simp
  then have c: "2 \<le> \<lceil>1 / x\<rceil>" by linarith
  have "1 / x / 2 \<le> real_of_int \<lceil>1 / x\<rceil> / 2" by (simp add: le_of_int_ceiling)
  also have "\<dots> \<le> real_of_int (\<lceil>1 / x\<rceil> - 1)" using c by simp
  finally have "\<lceil>1 / x / 2\<rceil> \<le> \<lceil>1 / x\<rceil> - 1" by (rule ceiling_le)
  then have "\<lceil>1 / x / 2\<rceil> < \<lceil>1 / x\<rceil>" by simp
  moreover have "0 < \<lceil>1 / x\<rceil>" using x by (simp add: ceiling_less_iff)
  ultimately show "(2 * x, x) \<in> measure (\<lambda>x. nat \<lceil>1 / x\<rceil>)"
    by (simp add: field_simps)
qed

declare binade_up.simps [simp del] binade_down.simps [simp del]

definition binade :: "real \<Rightarrow> int" where
  "binade x = (if 1 \<le> x then int (binade_up x) else - int (binade_down x))"

definition fl :: "real \<Rightarrow> real" where
  "fl x =
     (if x = 0 then 0
      else (let q = 2 powi (binade \<bar>x\<bar> - 52)
            in sgn x * real_of_int (round_half_even (\<bar>x\<bar> / q)) * q))"

text \<open>The unit roundoff of double precision, the largest relative error of \<open>fl\<close>.\<close>

definition unit_roundoff :: real where
  "unit_roundoff = 1 / 2 ^ 53"

subsection \<open>The library helpers\<close>

text \<open>The analysis hop of librosa: 512 samples per frame (the default \<open>hop_length\<close>).\<close>

definition hop_length :: nat where
  "hop_length = 512"

text \<open>
  The rate \<open>librosa.load\<close> resamples to when called without \<open>sr\<close>, as line 36 calls it.
\<close>

definition default_sr :: nat where
  "default_sr = 22050"

text \<open>\<open>librosa.get_duration(y=y, sr=sr)\<close>: the number of samples divided by the rate.\<close>

definition get_duration :: "waveform \<Rightarrow> nat \<Rightarrow> pyexc + real" where
  "get_duration y sr =
     (if sr = 0 then Inl (ZeroDivisionError ''float division by zero'')
      else Inr (real (length y) / real sr))"

text \<open>\<open>librosa.frames_to_time(frames, sr=sr)\<close>: \<open>frames * hop_length / sr\<close>.\<close>

definition frames_to_time :: "nat \<Rightarrow> nat \<Rightarrow> real" where
  "frames_to_time frames sr = real (frames * hop_length) / real sr"

definition np_ones :: "nat \<Rightarrow> real list" where
  "np_ones n = replicate n 1"

text \<open>
  \<open>np.correlate(a, w, 'valid')\<close> for \<open>len(w) \<le> len(a)\<close>: entry \<open>k\<close> is the dot product
  of \<open>w\<close> with the stretch of \<open>a\<close> that starts at \<open>k\<close>; there are
  \<open>len(a) - len(w) + 1\<close> entries.
\<close>

definition np_correlate_valid :: "real list \<Rightarrow> real list \<Rightarrow> real list" where
  "np_correlate_valid a w =
     map (\<lambda>k. sum_list (map2 (*) (take (length w) (drop k a)) w))
         [0 ..< length a - length w + 1]"

text \<open>
  \<open>np.convolve(a, v, 'valid')\<close>: NumPy rejects an empty operand, swaps the operands when
  \<open>v\<close> is the longer one, then correlates \<open>a\<close> with \<open>v\<close> reversed. So the result has
  \<open>max(M, N) - min(M, N) + 1\<close> entries. (NumPy 1.x swaps before it tests for emptiness;
  only the message of the error differs.)
\<close>

definition np_convolve_valid :: "real list \<Rightarrow> real list \<Rightarrow> pyexc + real list" where
  "np_convolve_valid a0 v0 =
     (if a0 = [] then Inl (ValueError ''a cannot be empty'')
      else if v0 = [] then Inl (ValueError ''v cannot be empty'')
      else (let (a, v) = (if length v0 > length a0 then (v0, a0) else (a0, v0))
            in Inr (np_correlate_valid a (rev v))))"

text \<open>
  \<open>np.argmax\<close>: a scan from the left that moves to a new index only on a strictly larger
  value; an empty array is rejected.
\<close>

fun argmax_scan :: "real list \<Rightarrow> nat \<Rightarrow> nat \<Rightarrow> real \<Rightarrow> nat" where
  "argmax_scan [] i best_i best = best_i"
| "argmax_scan (x # xs) i best_i best =
     (if x > best then argmax_scan xs (Suc i) i x
      else argmax_scan xs (Suc i) best_i best)"

definition np_argmax :: "real list \<Rightarrow> pyexc + nat" where
  "np_argmax xs =
     (case xs of
        [] \<Rightarrow> Inl (ValueError ''attempt to get argmax of an empty sequence'')
      | x # rest \<Rightarrow> Inr (argmax_scan rest 1 0 x))"

text \<open>
  \<open>np.mean\<close> of a one-dimensional array of doubles is \<open>np.add.reduce\<close> divided by the
  length. The reduction is NumPy's pairwise summation: fewer than 8 elements are added
  one after the other, starting from zero; up to 128 elements are added into 8 running
  sums, which are then combined pairwise, and the elements left over after the last full
  group of 8 are added one after the other; a longer array is split in two at a multiple
  of 8 near the middle. Every addition rounds.
\<close>

fun seq_add :: "real \<Rightarrow> real list \<Rightarrow> real" where
  "seq_add res [] = res"
| "seq_add res (a # as) = seq_add (fl (res + a)) as"

fun acc8 :: "real list \<Rightarrow> real list \<Rightarrow> real list" where
  "acc8 r (x0 # x1 # x2 # x3 # x4 # x5 # x6 # x7 # xs) =
     acc8 (map2 (\<lambda>p x. fl (p + x)) r [x0, x1, x2, x3, x4, x5, x6, x7]) xs"
| "acc8 r xs = r"

definition block_sum :: "real list \<Rightarrow> real" where
  "block_sum a =
     (let r = acc8 (take 8 a) (drop 8 a);
          res = fl (fl (fl (r ! 0 + r ! 1) + fl (r ! 2 + r ! 3))
                  + fl (fl (r ! 4 + r ! 5) + fl (r ! 6 + r ! 7)))
      in seq_add res (drop (length a - length a mod 8) a))"

function pairwise_sum :: "real list \<Rightarrow> real" where
  "pairwise_sum a =
     (if length a < 8 then seq_add 0 a
      else if length a \<le> 128 then block_sum a
      else fl (pairwise_sum (take (length a div 2 - length a div 2 mod 8) a)
             + pairwise_sum (drop (length a div 2 - length a div 2 mod 8) a)))"
  by auto
termination
proof (relation "measure length")
  show "wf (measure (length :: real list \<Rightarrow> nat))" by simp
next
  fix a :: "real list" assume big: "\<not> length a \<le> 128"
  have "length a div 2 - length a div 2 mod 8 \<le> length a div 2" by simp
  also have "\<dots> < length a" using big by simp
  finally show "(take (length a div 2 - length a div 2 mod 8) a, a) \<in> measure length"
    by simp
next
  fix a :: "real list" assume big: "\<not> length a \<le> 128"
  have "length a div 2 mod 8 < 8" by simp
  moreover have "64 \<le> length a div 2" using big by simp
  ultimately have "0 < length a div 2 - length a div 2 mod 8" by linarith
  then show "(drop (length a div 2 - length a div 2 mod 8) a, a) \<in> measure length"
    using big by simp
qed

declare pairwise_sum.simps [simp del]

text \<open>
  On an empty array NumPy's mean is NaN; the script never gets there, because
  \<open>np.argmax\<close> has raised before.
\<close>

definition np_mean :: "real list \<Rightarrow> real" where
  "np_mean xs = fl (fl (0 + pairwise_sum xs) / real (length xs))"

text \<open>
  The bound that \<open>c\<close> rounded additions of values between 0 and \<open>M\<close> stay under.
\<close>

definition sum_bound :: "real \<Rightarrow> nat \<Rightarrow> real" where
  "sum_bound M c = real c * M * (1 + unit_roundoff) ^ c"

text \<open>Python's float division raises on a zero divisor and rounds the quotient.\<close>

definition py_truediv :: "real \<Rightarrow> real \<Rightarrow> pyexc + real" where
  "py_truediv a b =
     (if b = 0 then Inl (ZeroDivisionError ''float division by zero'')
      else Inr (fl (a / b)))"

subsection \<open>The selector\<close>

text \<open>
  Line 54: \<open>window_size = int(5 * sr / 512)\<close>. The division is Python's true division,
  \<open>int\<close> truncates towards zero. The quotient by 512 is exact in double precision at
  the rate line 36 returns.
\<close>

definition window_size :: "nat \<Rightarrow> nat" where
  "window_size sr = nat \<lfloor>real (5 * sr) / 512\<rfloor>"


text \<open>Line 55: the Window Energy Curve.\<close>

definition onset_sum_curve :: "real list \<Rightarrow> nat \<Rightarrow> pyexc + real list" where
  "onset_sum_curve onset_env sr = np_convolve_valid onset_env (np_ones (window_size sr))"

subsection \<open>The process\<close>

text \<open>
  What depends on the audio content: the samples a path decodes to (mono, resampled), the
  result of beat tracking, and the spectral flux from which librosa derives the onset
  envelope; each of the three calls may raise. \<open>format_exc\<close> is the text
  \<open>traceback.format_exc()\<close> gives for an exception.
\<close>

record librosa =
  decode :: "string \<Rightarrow> pyexc + waveform"
  beat_track :: "waveform \<Rightarrow> nat \<Rightarrow> pyexc + (tempo_value \<times> nat list)"
  spectral_flux :: "waveform \<Rightarrow> nat \<Rightarrow> pyexc + real list"
  format_exc :: "pyexc \<Rightarrow> string"

text \<open>
  Line 36, \<open>librosa.load(audio_path)\<close>: the call passes no \<open>sr\<close>, so librosa resamples
  to its default rate and returns that rate with the samples, whatever the rate of the
  file.
\<close>

definition load :: "librosa \<Rightarrow> string \<Rightarrow> pyexc + (waveform \<times> nat)" where
  "load lib path =
     (case decode lib path of Inl e \<Rightarrow> Inl e | Inr y \<Rightarrow> Inr (y, default_sr))"

text \<open>
  Line 51, \<open>librosa.onset.onset_strength(y=y, sr=sr)\<close>: librosa takes the positive part
  \<open>max(0, \<cdot>)\<close> of the spectral difference before it averages over the frequency bands,
  so no value of the envelope is negative. A waveform without samples has no spectral
  change at all: librosa raises on it or returns an envelope of zeros, depending on the
  version.
\<close>

definition onset_strength :: "librosa \<Rightarrow> waveform \<Rightarrow> nat \<Rightarrow> pyexc + real list" where
  "onset_strength lib y sr =
     (case spectral_flux lib y sr of
        Inl e \<Rightarrow> Inl e
      | Inr flux \<Rightarrow> Inr (if y = [] then map (\<lambda>v. 0) flux else map (max 0) flux))"

text \<open>
  The state of the process: what was printed, what was written to the diagnostic log,
  whether \<open>debug_log.close()\<close> has been called, the paths handed to \<open>librosa.load\<close>, and
  the exit code.
\<close>

record proc =
  stdout :: "json_object list"
  debug_log :: "log_entry list"
  log_closed :: bool
  load_calls :: "string list"
  exit_code :: nat

text \<open>Line 13 opens the log; nothing has been printed yet.\<close>

definition startup :: proc where
  "startup = \<lparr>stdout = [], debug_log = [], log_closed = False, load_calls = [], exit_code = 0\<rparr>"

definition log_debug :: "log_entry \<Rightarrow> proc \<Rightarrow> proc" where
  "log_debug msg s = s\<lparr>debug_log := debug_log s @ [msg]\<rparr>"

definition print_json :: "json_object \<Rightarrow> proc \<Rightarrow> proc" where
  "print_json obj s = s\<lparr>stdout := stdout s @ [obj]\<rparr>"

definition close_log :: "proc \<Rightarrow> proc" where
  "close_log s = s\<lparr>log_closed := True\<rparr>"

definition sys_exit :: "nat \<Rightarrow> proc \<Rightarrow> proc" where
  "sys_exit code s = s\<lparr>exit_code := code\<rparr>"

text \<open>
  Lines 54 to 64: the curve, its peak, the raw start time and the energy ratio. Nothing
  is logged or printed here.
\<close>

definition peak_analysis :: "real list \<Rightarrow> nat \<Rightarrow> pyexc + (real \<times> real)" where
  "peak_analysis onset_env sr =
     (case onset_sum_curve onset_env sr of
        Inl e \<Rightarrow> Inl e
      | Inr onset_sum \<Rightarrow>
          (case np_argmax onset_sum of
             Inl e \<Rightarrow> Inl e
           | Inr peak_idx \<Rightarrow>
               (let start_time = frames_to_time peak_idx sr;
                    peak_energy = onset_sum ! peak_idx;
                    mean_energy = np_mean onset_sum
                in case py_truediv peak_energy mean_energy of
                     Inl e \<Rightarrow> Inl e
                   | Inr energy_ratio \<Rightarrow> Inr (start_time, energy_ratio))))"

text \<open>
  Lines 68 to 73: the start is moved back when fewer than twenty seconds remain after it,
  and the clip length is what remains, at most twenty seconds.
\<close>

definition boundary_policy :: "real \<Rightarrow> real \<Rightarrow> proc \<Rightarrow> (real \<times> real) \<times> proc" where
  "boundary_policy start_time0 duration s0 =
     (let (start_time, s1) =
            (if start_time0 > duration - 20
             then (max 0 (duration - 20), log_debug (LogAdjust start_time0) s0)
             else (start_time0, s0));
          highlight_duration = min 20 (duration - start_time);
          s2 = log_debug (LogSelected start_time (start_time + highlight_duration)) s1
      in ((start_time, highlight_duration), s2))"

text \<open>Lines 75 to 80: the result object; \<open>confidence\<close> repeats \<open>energy_ratio\<close>.\<close>

definition highlight_result :: "real \<Rightarrow> real \<Rightarrow> real \<Rightarrow> json_object" where
  "highlight_result start_time highlight_duration energy_ratio =
     [(''start'', JNumber start_time),
      (''duration'', JNumber highlight_duration),
      (''confidence'', JNumber energy_ratio),
      (''energy_ratio'', JNumber energy_ratio)]"

definition error_result :: "string \<Rightarrow> json_object" where
  "error_result msg = [(''error'', JString msg)]"

text \<open>
  Lines 33 to 82, the body of \<open>try\<close>. It returns the exception that left it, if any,
  together with the state reached at that point.
\<close>

definition try_body :: "librosa \<Rightarrow> string \<Rightarrow> proc \<Rightarrow> (pyexc + unit) \<times> proc" where
  "try_body lib audio_path s0 =
     (let s1 = log_debug (LogProcessing audio_path) s0;
          s2 = s1\<lparr>load_calls := load_calls s1 @ [audio_path]\<rparr>
      in case load lib audio_path of
           Inl e \<Rightarrow> (Inl e, s2)
         | Inr (y, sr) \<Rightarrow>
      (case get_duration y sr of
           Inl e \<Rightarrow> (Inl e, s2)
         | Inr duration \<Rightarrow>
      (let s3 = log_debug (LogDuration duration) s2
       in case beat_track lib y sr of
           Inl e \<Rightarrow> (Inl e, s3)
         | Inr (tempo0, beats) \<Rightarrow>
      (let beat_times = map (\<lambda>b. frames_to_time b sr) beats
       in case tempo_item tempo0 of
           Inl e \<Rightarrow> (Inl e, s3)
         | Inr tempo \<Rightarrow>
      (let s4 = log_debug (LogTempo tempo) s3;
           s5 = log_debug (LogBeats (length beats)) s4
       in case onset_strength lib y sr of
           Inl e \<Rightarrow> (Inl e, s5)
         | Inr onset_env \<Rightarrow>
      (case peak_analysis onset_env sr of
           Inl e \<Rightarrow> (Inl e, s5)
         | Inr (start_time0, energy_ratio) \<Rightarrow>
      (let s6 = log_debug (LogRatio energy_ratio) s5;
           ((start_time, highlight_duration), s7) = boundary_policy start_time0 duration s6;
           s8 = print_json (highlight_result start_time highlight_duration energy_ratio) s7
       in (Inr (), close_log s8))))))))"

text \<open>
  The whole script. \<open>argv\<close> is \<open>sys.argv\<close>: the program name, then the arguments.
  Lines 26 to 28 leave at once when there is no argument; lines 83 to 88 handle an
  exception of the body; a body that ends normally leaves the exit code at 0.
\<close>

definition run :: "librosa \<Rightarrow> string list \<Rightarrow> proc" where
  "run lib argv =
     (if length argv < 2
      then sys_exit 1 (print_json (error_result ''No audio file provided'') startup)
      else
        (let audio_path = argv ! 1
         in case try_body lib audio_path startup of
              (Inr u, s) \<Rightarrow> s
            | (Inl e, s) \<Rightarrow>
                (let error_msg = str_exc e @ [CHR 0x0A] @ format_exc lib e
                 in sys_exit 1 (close_log (print_json (error_result error_msg) s)))))"

text \<open>
  A library whose answers do not depend on the path or the waveform: every path decodes
  to \<open>y\<close>, with the given rhythm and spectral flux. Used to run the script on concrete
  inputs.
\<close>

definition fixed_lib :: "waveform \<Rightarrow> tempo_value \<Rightarrow> nat list \<Rightarrow> real list \<Rightarrow> librosa" where
  "fixed_lib y tempo beats flux =
     \<lparr>decode = (\<lambda>p. Inr y),
      beat_track = (\<lambda>w r. Inr (tempo, beats)),
      spectral_flux = (\<lambda>w r. Inr flux),
      format_exc = (\<lambda>e. ''Traceback (most recent call last):'')\<rparr>"

section \<open>Properties of the rounding\<close>

lemma binade_up_small [simp]: "x < 2 \<Longrightarrow> binade_up x = 0"
  by (subst binade_up.simps) simp

lemma binade_up_large [simp]: "2 \<le> x \<Longrightarrow> binade_up x = Suc (binade_up (x / 2))"
  by (subst binade_up.simps) simp

lemma binade_down_stop [simp]: "1 \<le> x \<or> x \<le> 0 \<Longrightarrow> binade_down x = 0"
  by (subst binade_down.simps) simp

lemma binade_down_step [simp]:
  "0 < x \<Longrightarrow> x < 1 \<Longrightarrow> binade_down x = Suc (binade_down (2 * x))"
  by (subst binade_down.simps) simp

lemmas fl_eval = fl_def binade_def round_half_even_def Let_def

lemma round_half_even_close: "\<bar>real_of_int (round_half_even x) - x\<bar> \<le> 1 / 2"
  unfolding round_half_even_def Let_def by (auto; linarith)

lemma binade_up_bounds:
  "1 \<le> x \<Longrightarrow> 2 ^ binade_up x \<le> x \<and> x < 2 ^ Suc (binade_up x)"
proof (induction x rule: binade_up.induct)
  case (1 x)
  show ?case
  proof (cases "x < 2")
    case True
    with "1.prems" show ?thesis by simp
  next
    case False
    then have "1 \<le> x / 2" by simp
    from "1.IH"[OF False this] False show ?thesis by simp
  qed
qed

lemma binade_down_bounds:
  "0 < x \<Longrightarrow> x < 1 \<Longrightarrow> 1 \<le> x * 2 ^ binade_down x \<and> x * 2 ^ binade_down x < 2"
proof (induction x rule: binade_down.induct)
  case (1 x)
  have nb: "\<not> (1 \<le> x \<or> x \<le> 0)" using "1.prems" by auto
  have unf: "binade_down x = Suc (binade_down (2 * x))"
    using "1.prems" by (rule binade_down_step)
  show ?case
  proof (cases "2 * x < 1")
    case True
    have "0 < 2 * x" using "1.prems" by simp
    from "1.IH"[OF nb this True] show ?thesis
      unfolding unf by (simp only: power_Suc mult.left_commute[of x 2] mult.assoc)
  next
    case False
    then have z: "binade_down (2 * x) = 0" by (intro binade_down_stop) simp
    from False "1.prems" show ?thesis unfolding unf z by (simp only: power_Suc power_0) simp
  qed
qed

lemma binade_bounds:
  assumes "0 < x"
  shows "2 powi binade x \<le> x \<and> x < 2 powi (binade x + 1)"
proof (cases "1 \<le> x")
  case True
  have "int (binade_up x) + 1 = int (Suc (binade_up x))" by simp
  with binade_up_bounds[OF True] True show ?thesis
    by (simp only: binade_def if_True power_int_of_nat)
next
  case False
  then have x1: "x < 1" by simp
  from binade_down_bounds[OF assms x1]
  have b: "1 \<le> x * 2 ^ binade_down x" "x * 2 ^ binade_down x < 2" by auto
  have e0: "(2::real) powi (- int (binade_down x)) = 1 / 2 ^ binade_down x"
    by (simp add: power_int_minus divide_inverse)
  have "(2::real) powi (- int (binade_down x) + 1) = 2 powi (- int (binade_down x)) * 2"
    by (rule power_int_add_1) simp
  then have e1: "(2::real) powi (- int (binade_down x) + 1) = 2 / 2 ^ binade_down x"
    by (simp add: e0)
  from b have "1 / 2 ^ binade_down x \<le> x" "x < 2 / 2 ^ binade_down x"
    by (simp_all add: field_simps)
  with False show ?thesis by (simp only: binade_def if_False e0 e1)
qed

lemma fl_zero [simp]: "fl 0 = 0"
  by (simp add: fl_def)

lemma fl_error:
  assumes "0 < x"
  shows "\<bar>fl x - x\<bar> \<le> x * unit_roundoff"
proof -
  define q :: real where "q = 2 powi (binade x - 52)"
  define k where "k = round_half_even (x / q)"
  have q: "q = 2 powi binade x / 2 ^ 52"
    unfolding q_def by (subst power_int_diff) simp_all
  have qpos: "0 < q" unfolding q_def by simp
  have flx: "fl x = real_of_int k * q"
    using assms by (simp add: fl_def Let_def q_def k_def)
  have "\<bar>real_of_int k - x / q\<bar> \<le> 1 / 2" unfolding k_def by (rule round_half_even_close)
  then have "\<bar>real_of_int k - x / q\<bar> * q \<le> 1 / 2 * q"
    using qpos by (intro mult_right_mono) simp_all
  moreover have "\<bar>real_of_int k - x / q\<bar> * q = \<bar>real_of_int k * q - x\<bar>"
  proof -
    have "\<bar>real_of_int k - x / q\<bar> * q = \<bar>(real_of_int k - x / q) * q\<bar>"
      using qpos by (simp add: abs_mult)
    also have "(real_of_int k - x / q) * q = real_of_int k * q - x"
      using qpos by (simp add: field_simps)
    finally show ?thesis .
  qed
  ultimately have "\<bar>fl x - x\<bar> \<le> q / 2" by (simp add: flx)
  also have "q / 2 = 2 powi binade x * unit_roundoff" by (simp add: q unit_roundoff_def)
  also have "\<dots> \<le> x * unit_roundoff"
    using binade_bounds[OF assms] by (intro mult_right_mono) (simp_all add: unit_roundoff_def)
  finally show ?thesis .
qed

lemma fl_upper: "0 \<le> x \<Longrightarrow> fl x \<le> x * (1 + unit_roundoff)"
proof (cases "x = 0")
  case True
  then show ?thesis by simp
next
  case False
  assume "0 \<le> x"
  with False have "0 < x" by simp
  from fl_error[OF this] show ?thesis by (simp add: algebra_simps abs_le_iff)
qed

lemma fl_lower: "0 \<le> x \<Longrightarrow> x * (1 - unit_roundoff) \<le> fl x"
proof (cases "x = 0")
  case True
  then show ?thesis by simp
next
  case False
  assume "0 \<le> x"
  with False have "0 < x" by simp
  from fl_error[OF this] show ?thesis by (simp add: algebra_simps abs_le_iff)
qed

lemma unit_roundoff_bounds: "0 < unit_roundoff" "unit_roundoff < 1"
  by (simp_all add: unit_roundoff_def)

lemma fl_nonneg: "0 \<le> x \<Longrightarrow> 0 \<le> fl x"
proof -
  assume x: "0 \<le> x"
  have "0 \<le> x * (1 - unit_roundoff)" using x unit_roundoff_bounds by simp
  with fl_lower[OF x] show ?thesis by linarith
qed

lemma fl_pos: "0 < x \<Longrightarrow> 0 < fl x"
proof -
  assume x: "0 < x"
  have "0 < x * (1 - unit_roundoff)" using x unit_roundoff_bounds by simp
  with fl_lower[of x] x show ?thesis by linarith
qed

section \<open>Properties of the pairwise summation\<close>

lemma sum_bound_add:
  assumes M: "0 \<le> M" and a: "0 \<le> a" "a \<le> sum_bound M p"
    and b: "0 \<le> b" "b \<le> sum_bound M q" and pq: "1 \<le> p" "1 \<le> q"
  shows "0 \<le> fl (a + b) \<and> fl (a + b) \<le> sum_bound M (p + q)"
proof -
  let ?w = "1 + unit_roundoff"
  have w: "1 \<le> ?w" "0 \<le> ?w" using unit_roundoff_bounds by simp_all
  have ab: "0 \<le> a + b" using a b by simp
  have wp: "?w ^ p * ?w \<le> ?w ^ (p + q)"
  proof -
    have "?w ^ Suc p \<le> ?w ^ (p + q)" using w pq by (intro power_increasing) simp_all
    then show ?thesis by (simp add: mult.commute)
  qed
  have wq: "?w ^ q * ?w \<le> ?w ^ (p + q)"
  proof -
    have "?w ^ Suc q \<le> ?w ^ (p + q)" using w pq by (intro power_increasing) simp_all
    then show ?thesis by (simp add: mult.commute)
  qed
  have pM: "0 \<le> real p * M" "0 \<le> real q * M" using M by simp_all
  have "fl (a + b) \<le> (a + b) * ?w" using ab by (rule fl_upper)
  also have "\<dots> \<le> (real p * M * ?w ^ p + real q * M * ?w ^ q) * ?w"
    using a(2) b(2) w unfolding sum_bound_def by (intro mult_right_mono add_mono) simp_all
  also have "\<dots> = real p * M * (?w ^ p * ?w) + real q * M * (?w ^ q * ?w)"
    by (simp add: algebra_simps)
  also have "\<dots> \<le> real p * M * ?w ^ (p + q) + real q * M * ?w ^ (p + q)"
    using pM wp wq by (intro add_mono mult_left_mono) simp_all
  also have "\<dots> = sum_bound M (p + q)"
    by (simp add: sum_bound_def algebra_simps)
  finally have "fl (a + b) \<le> sum_bound M (p + q)" .
  moreover have "0 \<le> fl (a + b)" using ab by (rule fl_nonneg)
  ultimately show ?thesis by simp
qed

lemma sum_bound_one:
  assumes "0 \<le> x" "x \<le> M"
  shows "x \<le> sum_bound M 1"
proof -
  have "0 \<le> M" using assms by simp
  then have "M \<le> M * (1 + unit_roundoff)"
    using unit_roundoff_bounds by (simp add: mult_le_cancel_left1)
  with assms show ?thesis by (simp add: sum_bound_def)
qed

lemma seq_add_bound:
  assumes M: "0 \<le> M" and el: "\<forall>x \<in> set as. 0 \<le> x \<and> x \<le> M"
    and res: "0 \<le> res" "res \<le> sum_bound M p" and p: "1 \<le> p"
  shows "0 \<le> seq_add res as \<and> seq_add res as \<le> sum_bound M (p + length as)"
  using el res p
proof (induction as arbitrary: res p)
  case Nil
  then show ?case by simp
next
  case (Cons a as)
  have a0: "0 \<le> a" "a \<le> M" using Cons.prems(1) by simp_all
  have a: "0 \<le> a" "a \<le> sum_bound M 1" using a0 sum_bound_one[OF a0] by simp_all
  from sum_bound_add[OF M Cons.prems(2,3) a Cons.prems(4)]
  have step: "0 \<le> fl (res + a)" "fl (res + a) \<le> sum_bound M (p + 1)" by simp_all
  have "0 \<le> seq_add (fl (res + a)) as
        \<and> seq_add (fl (res + a)) as \<le> sum_bound M (p + 1 + length as)"
    using Cons.prems(1) step by (intro Cons.IH) simp_all
  then show ?case by (simp add: add.assoc)
qed

lemma seq_add_zero_bound:
  assumes M: "0 \<le> M" and el: "\<forall>x \<in> set as. 0 \<le> x \<and> x \<le> M" and ne: "as \<noteq> []"
  shows "0 \<le> seq_add 0 as \<and> seq_add 0 as \<le> sum_bound M (length as)"
proof -
  from ne obtain a rest where as: "as = a # rest" by (cases as) auto
  have a: "0 \<le> a" "a \<le> M" using el as by auto
  have f0: "0 \<le> fl (0 + a)" using a by (simp add: fl_nonneg)
  have "fl (0 + a) \<le> a * (1 + unit_roundoff)" using a fl_upper[of a] by simp
  also have "\<dots> \<le> M * (1 + unit_roundoff)"
    using a unit_roundoff_bounds by (intro mult_right_mono) simp_all
  finally have f1: "fl (0 + a) \<le> sum_bound M 1" by (simp add: sum_bound_def)
  have "\<forall>x \<in> set rest. 0 \<le> x \<and> x \<le> M" using el as by simp
  from seq_add_bound[OF M this f0 f1] show ?thesis by (simp add: as)
qed

lemma acc8_bound:
  assumes M: "0 \<le> M"
  shows "length r = 8 \<Longrightarrow> \<forall>v \<in> set r. 0 \<le> v \<and> v \<le> sum_bound M c \<Longrightarrow> 1 \<le> c \<Longrightarrow>
         \<forall>x \<in> set xs. 0 \<le> x \<and> x \<le> M \<Longrightarrow>
         length (acc8 r xs) = 8
         \<and> (\<forall>v \<in> set (acc8 r xs). 0 \<le> v \<and> v \<le> sum_bound M (c + length xs div 8))"
proof (induction r xs arbitrary: c rule: acc8.induct)
  case (1 r x0 x1 x2 x3 x4 x5 x6 x7 xs)
  let ?g = "[x0, x1, x2, x3, x4, x5, x6, x7]"
  let ?r = "map2 (\<lambda>p x. fl (p + x)) r ?g"
  have len: "length ?r = 8" using "1.prems"(1) by simp
  have el: "\<forall>v \<in> set ?r. 0 \<le> v \<and> v \<le> sum_bound M (c + 1)"
  proof
    fix v assume "v \<in> set ?r"
    then obtain p x where px: "(p, x) \<in> set (zip r ?g)" "v = fl (p + x)" by auto
    then have p: "p \<in> set r" and x: "x \<in> set ?g" by (auto dest: set_zip_leftD set_zip_rightD)
    have x0: "0 \<le> x" "x \<le> M" using x "1.prems"(4) by auto
    have xb: "0 \<le> x" "x \<le> sum_bound M 1" using x0 sum_bound_one[OF x0] by simp_all
    have pb: "0 \<le> p" "p \<le> sum_bound M c" using p "1.prems"(2) by auto
    from sum_bound_add[OF M pb xb "1.prems"(3)] show "0 \<le> v \<and> v \<le> sum_bound M (c + 1)"
      by (simp add: px(2))
  qed
  have rest: "\<forall>x \<in> set xs. 0 \<le> x \<and> x \<le> M" using "1.prems"(4) by simp
  have "length (acc8 ?r xs) = 8
         \<and> (\<forall>v \<in> set (acc8 ?r xs). 0 \<le> v \<and> v \<le> sum_bound M (c + 1 + length xs div 8))"
    using len el rest by (intro "1.IH") simp_all
  then show ?case by (simp add: add.assoc)
qed simp_all

lemma block_sum_bound:
  assumes M: "0 \<le> M" and el: "\<forall>x \<in> set a. 0 \<le> x \<and> x \<le> M" and n: "8 \<le> length a"
  shows "0 \<le> block_sum a \<and> block_sum a \<le> sum_bound M (length a)"
proof -
  define r where "r = acc8 (take 8 a) (drop 8 a)"
  define c where "c = 1 + length (drop 8 a) div 8"
  have t8: "length (take 8 a) = 8" using n by simp
  have e8: "\<forall>v \<in> set (take 8 a). 0 \<le> v \<and> v \<le> sum_bound M 1"
  proof
    fix v assume "v \<in> set (take 8 a)"
    then have "v \<in> set a" by (rule in_set_takeD)
    with el have v: "0 \<le> v" "v \<le> M" by auto
    with sum_bound_one[OF v] show "0 \<le> v \<and> v \<le> sum_bound M 1" by simp
  qed
  have d8: "\<forall>x \<in> set (drop 8 a). 0 \<le> x \<and> x \<le> M" using el by (meson in_set_dropD)
  from acc8_bound[OF M t8 e8 _ d8]
  have r: "length r = 8" "\<forall>v \<in> set r. 0 \<le> v \<and> v \<le> sum_bound M c"
    unfolding r_def c_def by simp_all
  have ri: "\<And>i. i < 8 \<Longrightarrow> 0 \<le> r ! i \<and> r ! i \<le> sum_bound M c"
    using r by (metis nth_mem)
  have c1: "1 \<le> c" by (simp add: c_def)
  have c2: "1 \<le> c + c" by (simp add: c_def)
  have c4: "1 \<le> c + c + (c + c)" by (simp add: c_def)
  note s01 = sum_bound_add[OF M conjunct1[OF ri[of 0]] conjunct2[OF ri[of 0]]
                conjunct1[OF ri[of 1]] conjunct2[OF ri[of 1]] c1 c1, simplified]
  note s23 = sum_bound_add[OF M conjunct1[OF ri[of 2]] conjunct2[OF ri[of 2]]
                conjunct1[OF ri[of 3]] conjunct2[OF ri[of 3]] c1 c1, simplified]
  note s45 = sum_bound_add[OF M conjunct1[OF ri[of 4]] conjunct2[OF ri[of 4]]
                conjunct1[OF ri[of 5]] conjunct2[OF ri[of 5]] c1 c1, simplified]
  note s67 = sum_bound_add[OF M conjunct1[OF ri[of 6]] conjunct2[OF ri[of 6]]
                conjunct1[OF ri[of 7]] conjunct2[OF ri[of 7]] c1 c1, simplified]
  note s03 = sum_bound_add[OF M conjunct1[OF s01] conjunct2[OF s01]
                conjunct1[OF s23] conjunct2[OF s23] c2 c2]
  note s47 = sum_bound_add[OF M conjunct1[OF s45] conjunct2[OF s45]
                conjunct1[OF s67] conjunct2[OF s67] c2 c2]
  note s07 = sum_bound_add[OF M conjunct1[OF s03] conjunct2[OF s03]
                conjunct1[OF s47] conjunct2[OF s47] c4 c4]
  define res where "res = fl (fl (fl (r ! 0 + r ! 1) + fl (r ! 2 + r ! 3))
                  + fl (fl (r ! 4 + r ! 5) + fl (r ! 6 + r ! 7)))"
  have res: "0 \<le> res" "res \<le> sum_bound M (8 * c)"
  proof -
    have "c + c + (c + c) + (c + c + (c + c)) = 8 * c" by simp
    with s07 show "0 \<le> res" "res \<le> sum_bound M (8 * c)" unfolding res_def by simp_all
  qed
  have c8: "1 \<le> 8 * c" using c1 by simp
  have rest: "\<forall>x \<in> set (drop (length a - length a mod 8) a). 0 \<le> x \<and> x \<le> M"
    using el by (meson in_set_dropD)
  have len: "8 * c + length (drop (length a - length a mod 8) a) = length a"
  proof -
    obtain m where m: "length a = 8 + m" using n by (metis le_Suc_ex)
    have "c = 1 + m div 8" unfolding c_def by (simp add: m)
    moreover have "length a div 8 = 1 + m div 8" by (simp add: m)
    ultimately have "c = length a div 8" by simp
    moreover have "length (drop (length a - length a mod 8) a) = length a mod 8"
      by (simp add: mod_le_divisor)
    ultimately show ?thesis by simp
  qed
  from seq_add_bound[OF M rest res c8]
  have "0 \<le> seq_add res (drop (length a - length a mod 8) a)
      \<and> seq_add res (drop (length a - length a mod 8) a) \<le> sum_bound M (length a)"
    by (simp only: len)
  then show ?thesis by (simp add: block_sum_def Let_def r_def res_def)
qed

lemma pairwise_sum_bound:
  assumes M: "0 \<le> M"
  shows "\<forall>x \<in> set a. 0 \<le> x \<and> x \<le> M \<Longrightarrow> a \<noteq> [] \<Longrightarrow>
         0 \<le> pairwise_sum a \<and> pairwise_sum a \<le> sum_bound M (length a)"
proof (induction a rule: pairwise_sum.induct)
  case (1 a)
  show ?case
  proof (cases "length a < 8")
    case True
    with seq_add_zero_bound[OF M "1.prems"] show ?thesis by (subst (1 2) pairwise_sum.simps) simp
  next
    case small: False
    show ?thesis
    proof (cases "length a \<le> 128")
      case True
      from small have "8 \<le> length a" by simp
      from block_sum_bound[OF M "1.prems"(1) this] small True show ?thesis
        by (subst (1 2) pairwise_sum.simps) simp
    next
      case big: False
      define n2 where "n2 = length a div 2 - length a div 2 mod 8"
      have "length a div 2 mod 8 < 8" by simp
      moreover have "64 \<le> length a div 2" using big by simp
      ultimately have n2pos: "0 < n2" unfolding n2_def by linarith
      have "n2 \<le> length a div 2" unfolding n2_def by simp
      also have "\<dots> < length a" using big by simp
      finally have n2lt: "n2 < length a" .
      have l1: "length (take n2 a) = n2" using n2lt by simp
      have l2: "length (drop n2 a) = length a - n2" by simp
      have e1: "\<forall>x \<in> set (take n2 a). 0 \<le> x \<and> x \<le> M"
        using "1.prems"(1) by (meson in_set_takeD)
      have e2: "\<forall>x \<in> set (drop n2 a). 0 \<le> x \<and> x \<le> M"
        using "1.prems"(1) by (meson in_set_dropD)
      have ne1: "take n2 a \<noteq> []" using l1 n2pos by auto
      have ne2: "drop n2 a \<noteq> []" using n2lt by simp
      from "1.IH"(1)[OF small big e1[unfolded n2_def] ne1[unfolded n2_def]]
      have b1: "0 \<le> pairwise_sum (take n2 a)" "pairwise_sum (take n2 a) \<le> sum_bound M n2"
        unfolding n2_def[symmetric] l1 by simp_all
      from "1.IH"(2)[OF small big e2[unfolded n2_def] ne2[unfolded n2_def]]
      have b2: "0 \<le> pairwise_sum (drop n2 a)"
               "pairwise_sum (drop n2 a) \<le> sum_bound M (length a - n2)"
        unfolding n2_def[symmetric] l2 by simp_all
      have p1: "1 \<le> n2" using n2pos by simp
      have p2: "1 \<le> length a - n2" using n2lt by simp
      have "n2 + (length a - n2) = length a" using n2lt by simp
      with sum_bound_add[OF M b1 b2 p1 p2]
      have "0 \<le> fl (pairwise_sum (take n2 a) + pairwise_sum (drop n2 a))
          \<and> fl (pairwise_sum (take n2 a) + pairwise_sum (drop n2 a)) \<le> sum_bound M (length a)"
        by simp
      moreover have "pairwise_sum a = fl (pairwise_sum (take n2 a) + pairwise_sum (drop n2 a))"
        using small big by (subst pairwise_sum.simps) (simp add: n2_def)
      ultimately show ?thesis by simp
    qed
  qed
qed

lemma np_mean_bound:
  assumes M: "0 \<le> M" and el: "\<forall>x \<in> set xs. 0 \<le> x \<and> x \<le> M" and ne: "xs \<noteq> []"
  shows "0 \<le> np_mean xs \<and> np_mean xs \<le> M * (1 + unit_roundoff) ^ (length xs + 2)"
proof -
  let ?w = "1 + unit_roundoff"
  let ?n = "length xs"
  have w: "0 \<le> ?w" using unit_roundoff_bounds by simp
  have n: "0 < real ?n" using ne by simp
  from pairwise_sum_bound[OF M el ne]
  have s: "0 \<le> pairwise_sum xs" "pairwise_sum xs \<le> real ?n * M * ?w ^ ?n"
    by (simp_all add: sum_bound_def)
  have t0: "0 \<le> fl (0 + pairwise_sum xs)" using s(1) by (simp add: fl_nonneg)
  have "fl (0 + pairwise_sum xs) \<le> pairwise_sum xs * ?w" using s(1) fl_upper by simp
  also have "\<dots> \<le> real ?n * M * ?w ^ ?n * ?w" using s(2) w by (rule mult_right_mono)
  finally have t1: "fl (0 + pairwise_sum xs) \<le> real ?n * (M * ?w ^ (?n + 1))"
    by (simp add: algebra_simps)
  have q0: "0 \<le> fl (0 + pairwise_sum xs) / real ?n" using t0 by simp
  have q1: "fl (0 + pairwise_sum xs) / real ?n \<le> M * ?w ^ (?n + 1)"
    using t1 n by (simp add: pos_divide_le_eq mult.commute)
  have "np_mean xs \<le> fl (0 + pairwise_sum xs) / real ?n * ?w"
    unfolding np_mean_def using q0 by (rule fl_upper)
  also have "\<dots> \<le> M * ?w ^ (?n + 1) * ?w" using q1 w by (rule mult_right_mono)
  finally have "np_mean xs \<le> M * ?w ^ (?n + 2)" by (simp add: algebra_simps)
  moreover have "0 \<le> np_mean xs" unfolding np_mean_def using q0 by (rule fl_nonneg)
  ultimately show ?thesis by simp
qed

lemma ratio_lower_bound:
  assumes mean: "0 < m" "m \<le> M * (1 + unit_roundoff) ^ k"
  shows "1 - real (k + 1) * unit_roundoff \<le> fl (M / m)"
proof -
  let ?u = unit_roundoff
  let ?w = "1 + ?u"
  have u: "0 < ?u" "?u < 1" by (rule unit_roundoff_bounds)+
  have wk: "0 < ?w ^ k" using u by simp
  have Mpos: "0 < M"
  proof (rule ccontr)
    assume "\<not> 0 < M"
    then have "M * ?w ^ k \<le> 0" using wk by (simp add: mult_le_0_iff)
    with mean show False by simp
  qed
  have inv: "1 - ?u \<le> 1 / ?w"
  proof -
    have "(1 - ?u) * ?w \<le> 1" by (simp add: algebra_simps)
    then show ?thesis using u by (simp add: pos_le_divide_eq)
  qed
  have "(1 - ?u) ^ k \<le> (1 / ?w) ^ k" using inv u by (intro power_mono) simp_all
  also have "\<dots> = 1 / ?w ^ k" by (simp add: power_divide)
  also have "\<dots> \<le> M / m"
  proof -
    have "m \<le> M * ?w ^ k" by (rule mean(2))
    then have "1 * m \<le> M * ?w ^ k" by simp
    then show ?thesis using mean(1) wk by (simp add: field_simps)
  qed
  finally have q: "(1 - ?u) ^ k \<le> M / m" .
  have qpos: "0 \<le> M / m" using Mpos mean(1) by simp
  have "(1 - ?u) ^ (k + 1) = (1 - ?u) ^ k * (1 - ?u)" by simp
  also have "\<dots> \<le> M / m * (1 - ?u)" using q u by (intro mult_right_mono) simp_all
  also have "\<dots> \<le> fl (M / m)" using qpos by (rule fl_lower)
  finally have "(1 - ?u) ^ (k + 1) \<le> fl (M / m)" .
  moreover have "1 + real (k + 1) * (- ?u) \<le> (1 + (- ?u)) ^ (k + 1)"
    using u by (intro Bernoulli_inequality) simp
  ultimately show ?thesis by simp
qed

lemma seq_add_closed:
  assumes add: "\<And>a b. Q a \<Longrightarrow> Q b \<Longrightarrow> Q (fl (a + b))"
  shows "Q res \<Longrightarrow> \<forall>x \<in> set as. Q x \<Longrightarrow> Q (seq_add res as)"
  by (induction as arbitrary: res) (simp_all add: add)

lemma acc8_closed:
  assumes add: "\<And>a b. Q a \<Longrightarrow> Q b \<Longrightarrow> Q (fl (a + b))"
  shows "length r = 8 \<Longrightarrow> \<forall>v \<in> set r. Q v \<Longrightarrow> \<forall>x \<in> set xs. Q x \<Longrightarrow>
         length (acc8 r xs) = 8 \<and> (\<forall>v \<in> set (acc8 r xs). Q v)"
proof (induction r xs rule: acc8.induct)
  case (1 r x0 x1 x2 x3 x4 x5 x6 x7 xs)
  let ?g = "[x0, x1, x2, x3, x4, x5, x6, x7]"
  let ?r = "map2 (\<lambda>p x. fl (p + x)) r ?g"
  have len: "length ?r = 8" using "1.prems"(1) by simp
  have el: "\<forall>v \<in> set ?r. Q v"
  proof
    fix v assume "v \<in> set ?r"
    then obtain p x where px: "(p, x) \<in> set (zip r ?g)" "v = fl (p + x)" by auto
    then have "p \<in> set r" "x \<in> set ?g" by (auto dest: set_zip_leftD set_zip_rightD)
    then have "Q p" "Q x" using "1.prems"(2,3) by auto
    then show "Q v" unfolding px(2) by (rule add)
  qed
  have rest: "\<forall>x \<in> set xs. Q x" using "1.prems"(3) by simp
  from "1.IH"[OF len el rest] show ?case by simp
qed simp_all

lemma block_sum_closed:
  assumes add: "\<And>a b. Q a \<Longrightarrow> Q b \<Longrightarrow> Q (fl (a + b))"
    and el: "\<forall>x \<in> set a. Q x" and n: "8 \<le> length a"
  shows "Q (block_sum a)"
proof -
  define r where "r = acc8 (take 8 a) (drop 8 a)"
  have t8: "length (take 8 a) = 8" using n by simp
  have e8: "\<forall>v \<in> set (take 8 a). Q v" using el by (meson in_set_takeD)
  have d8: "\<forall>x \<in> set (drop 8 a). Q x" using el by (meson in_set_dropD)
  from acc8_closed[of Q, OF add t8 e8 d8]
  have r: "length r = 8" "\<forall>v \<in> set r. Q v" unfolding r_def by simp_all
  have ri: "\<And>i. i < 8 \<Longrightarrow> Q (r ! i)" using r by (metis nth_mem)
  have res: "Q (fl (fl (fl (r ! 0 + r ! 1) + fl (r ! 2 + r ! 3))
                  + fl (fl (r ! 4 + r ! 5) + fl (r ! 6 + r ! 7))))"
    by (intro add ri) simp_all
  have rest: "\<forall>x \<in> set (drop (length a - length a mod 8) a). Q x"
    using el by (meson in_set_dropD)
  from seq_add_closed[of Q, OF add res rest] show ?thesis
    by (simp add: block_sum_def Let_def r_def)
qed

lemma pairwise_sum_closed:
  assumes add: "\<And>a b. Q a \<Longrightarrow> Q b \<Longrightarrow> Q (fl (a + b))"
    and first: "\<And>x. Q x \<Longrightarrow> Q (fl (0 + x))"
  shows "\<forall>x \<in> set a. Q x \<Longrightarrow> a \<noteq> [] \<Longrightarrow> Q (pairwise_sum a)"
proof (induction a rule: pairwise_sum.induct)
  case (1 a)
  show ?case
  proof (cases "length a < 8")
    case True
    from "1.prems"(2) obtain x rest where a: "a = x # rest" by (cases a) auto
    have q0: "Q (fl (0 + x))" using "1.prems"(1) a by (intro first) simp
    have qr: "\<forall>y \<in> set rest. Q y" using "1.prems"(1) a by simp
    have "Q (seq_add (fl (0 + x)) rest)"
      using add q0 qr by (rule seq_add_closed[of Q])
    with True show ?thesis by (subst pairwise_sum.simps) (simp add: a)
  next
    case small: False
    show ?thesis
    proof (cases "length a \<le> 128")
      case True
      from small have "8 \<le> length a" by simp
      from block_sum_closed[of Q, OF add "1.prems"(1) this] small True show ?thesis
        by (subst pairwise_sum.simps) simp
    next
      case big: False
      define n2 where "n2 = length a div 2 - length a div 2 mod 8"
      have "length a div 2 mod 8 < 8" by simp
      moreover have "64 \<le> length a div 2" using big by simp
      ultimately have n2pos: "0 < n2" unfolding n2_def by linarith
      have "n2 \<le> length a div 2" unfolding n2_def by simp
      also have "\<dots> < length a" using big by simp
      finally have n2lt: "n2 < length a" .
      have e1: "\<forall>x \<in> set (take n2 a). Q x" using "1.prems"(1) by (meson in_set_takeD)
      have e2: "\<forall>x \<in> set (drop n2 a). Q x" using "1.prems"(1) by (meson in_set_dropD)
      have ne1: "take n2 a \<noteq> []" using n2lt n2pos "1.prems"(2) by auto
      have ne2: "drop n2 a \<noteq> []" using n2lt by simp
      from "1.IH"(1)[OF small big e1[unfolded n2_def] ne1[unfolded n2_def]]
      have b1: "Q (pairwise_sum (take n2 a))" unfolding n2_def .
      from "1.IH"(2)[OF small big e2[unfolded n2_def] ne2[unfolded n2_def]]
      have b2: "Q (pairwise_sum (drop n2 a))" unfolding n2_def .
      have "pairwise_sum a = fl (pairwise_sum (take n2 a) + pairwise_sum (drop n2 a))"
        using small big by (subst pairwise_sum.simps) (simp add: n2_def)
      with add[OF b1 b2] show ?thesis by simp
    qed
  qed
qed

lemma np_mean_zero:
  assumes "\<forall>x \<in> set xs. x = 0"
  shows "np_mean xs = 0"
proof (cases "xs = []")
  case True
  then show ?thesis by (simp add: np_mean_def)
next
  case False
  have "pairwise_sum xs = 0"
    by (rule pairwise_sum_closed[of "\<lambda>v. v = 0", OF _ _ assms False]) simp_all
  then show ?thesis by (simp add: np_mean_def)
qed

lemma np_mean_pos:
  assumes "\<forall>x \<in> set xs. 0 < x" and "xs \<noteq> []"
  shows "0 < np_mean xs"
proof -
  have "0 < pairwise_sum xs"
    by (rule pairwise_sum_closed[of "\<lambda>v. 0 < v", OF _ _ assms]) (simp_all add: fl_pos)
  then have "0 < fl (0 + pairwise_sum xs)" by (simp add: fl_pos)
  then have "0 < fl (0 + pairwise_sum xs) / real (length xs)" using assms(2) by simp
  then show ?thesis unfolding np_mean_def by (rule fl_pos)
qed

section \<open>Properties of the library helpers\<close>

lemma window_size_div: "window_size sr = (5 * sr) div 512"
proof -
  have "\<lfloor>real (5 * sr) / 512\<rfloor> = int ((5 * sr) div 512)"
    by (metis floor_divide_of_nat_eq of_nat_numeral)
  then show ?thesis by (simp add: window_size_def)
qed

lemma window_size_default: "window_size 22050 = 215"
  by (simp add: window_size_div)

lemma argmax_scan_inv:
  assumes "bi < length pre" "b = pre ! bi" "\<forall>j < length pre. pre ! j \<le> b" "\<forall>j < bi. pre ! j < b"
  shows "argmax_scan xs (length pre) bi b < length (pre @ xs)
       \<and> (\<forall>j < length (pre @ xs). (pre @ xs) ! j \<le> (pre @ xs) ! argmax_scan xs (length pre) bi b)
       \<and> (\<forall>j < argmax_scan xs (length pre) bi b. (pre @ xs) ! j < (pre @ xs) ! argmax_scan xs (length pre) bi b)"
  using assms
proof (induction xs arbitrary: pre bi b)
  case Nil
  then show ?case by simp
next
  case (Cons x xs)
  show ?case
  proof (cases "x > b")
    case True
    have "argmax_scan xs (length (pre @ [x])) (length pre) x < length ((pre @ [x]) @ xs)
       \<and> (\<forall>j < length ((pre @ [x]) @ xs). ((pre @ [x]) @ xs) ! j \<le> ((pre @ [x]) @ xs) ! argmax_scan xs (length (pre @ [x])) (length pre) x)
       \<and> (\<forall>j < argmax_scan xs (length (pre @ [x])) (length pre) x. ((pre @ [x]) @ xs) ! j < ((pre @ [x]) @ xs) ! argmax_scan xs (length (pre @ [x])) (length pre) x)"
    proof (rule Cons.IH)
      show "length pre < length (pre @ [x])" by simp
      show "x = (pre @ [x]) ! length pre" by simp
      show "\<forall>j<length (pre @ [x]). (pre @ [x]) ! j \<le> x"
        using Cons.prems True by (auto simp: nth_append less_Suc_eq intro: less_imp_le order_trans)
      show "\<forall>j<length pre. (pre @ [x]) ! j < x"
        using Cons.prems True by (auto simp: nth_append intro: le_less_trans)
    qed
    with True show ?thesis by simp
  next
    case False
    have "argmax_scan xs (length (pre @ [x])) bi b < length ((pre @ [x]) @ xs)
       \<and> (\<forall>j < length ((pre @ [x]) @ xs). ((pre @ [x]) @ xs) ! j \<le> ((pre @ [x]) @ xs) ! argmax_scan xs (length (pre @ [x])) bi b)
       \<and> (\<forall>j < argmax_scan xs (length (pre @ [x])) bi b. ((pre @ [x]) @ xs) ! j < ((pre @ [x]) @ xs) ! argmax_scan xs (length (pre @ [x])) bi b)"
    proof (rule Cons.IH)
      show "bi < length (pre @ [x])" using Cons.prems by simp
      show "b = (pre @ [x]) ! bi" using Cons.prems by (simp add: nth_append)
      show "\<forall>j<length (pre @ [x]). (pre @ [x]) ! j \<le> b"
        using Cons.prems False by (auto simp: nth_append less_Suc_eq)
      show "\<forall>j<bi. (pre @ [x]) ! j < b"
        using Cons.prems by (auto simp: nth_append)
    qed
    with False show ?thesis by simp
  qed
qed

lemma np_argmax_first:
  assumes "xs \<noteq> []"
  shows "\<exists>i. np_argmax xs = Inr i \<and> i < length xs
           \<and> (\<forall>j < length xs. xs ! j \<le> xs ! i) \<and> (\<forall>j < i. xs ! j < xs ! i)"
proof -
  from assms obtain x rest where xs: "xs = x # rest" by (cases xs) auto
  have "argmax_scan rest (length [x]) 0 x < length ([x] @ rest)
       \<and> (\<forall>j < length ([x] @ rest). ([x] @ rest) ! j \<le> ([x] @ rest) ! argmax_scan rest (length [x]) 0 x)
       \<and> (\<forall>j < argmax_scan rest (length [x]) 0 x. ([x] @ rest) ! j < ([x] @ rest) ! argmax_scan rest (length [x]) 0 x)"
    by (rule argmax_scan_inv) simp_all
  then show ?thesis by (simp add: np_argmax_def xs)
qed

lemma nth_eq_Max:
  fixes xs :: "real list"
  assumes "i < length xs" "\<forall>j < length xs. xs ! j \<le> xs ! i"
  shows "xs ! i = Max (set xs)"
proof (rule antisym)
  show "xs ! i \<le> Max (set xs)" using assms(1) by simp
  show "Max (set xs) \<le> xs ! i"
    using assms by (intro Max.boundedI) (auto simp: in_set_conv_nth)
qed

lemma map2_mult_replicate_one:
  fixes xs :: "real list"
  shows "map2 (*) xs (replicate n 1) = take n xs"
proof (induction xs arbitrary: n)
  case Nil
  then show ?case by simp
next
  case (Cons x xs)
  then show ?case by (cases n) simp_all
qed

lemma map2_mult_one_replicate:
  fixes ys :: "real list"
  shows "map2 (*) (replicate n 1) ys = take n ys"
proof (induction ys arbitrary: n)
  case Nil
  then show ?case by simp
next
  case (Cons y ys)
  then show ?case by (cases n) simp_all
qed

lemma length_np_correlate_valid:
  "length (np_correlate_valid a w) = length a - length w + 1"
  by (simp add: np_correlate_valid_def)

lemma nth_np_correlate_valid:
  "k < length a - length w + 1 \<Longrightarrow>
   np_correlate_valid a w ! k = sum_list (map2 (*) (take (length w) (drop k a)) w)"
  by (simp add: np_correlate_valid_def del: upt_Suc)

lemma sum_list_map2_nonneg:
  fixes xs ys :: "real list"
  assumes "\<forall>x \<in> set xs. 0 \<le> x" "\<forall>y \<in> set ys. 0 \<le> y"
  shows "0 \<le> sum_list (map2 (*) xs ys)"
proof (rule sum_list_nonneg)
  fix z assume "z \<in> set (map2 (*) xs ys)"
  then obtain x y where "(x, y) \<in> set (zip xs ys)" "z = x * y" by auto
  then have "x \<in> set xs" "y \<in> set ys" by (auto dest: set_zip_leftD set_zip_rightD)
  with assms \<open>z = x * y\<close> show "0 \<le> z" by simp
qed

lemma np_correlate_valid_nonneg:
  assumes "\<forall>x \<in> set a. 0 \<le> x" "\<forall>y \<in> set w. 0 \<le> y"
  shows "\<forall>z \<in> set (np_correlate_valid a w). 0 \<le> z"
proof
  fix z assume "z \<in> set (np_correlate_valid a w)"
  then obtain k where z: "z = sum_list (map2 (*) (take (length w) (drop k a)) w)"
    by (auto simp add: np_correlate_valid_def simp del: upt_Suc)
  have "\<forall>x \<in> set (take (length w) (drop k a)). 0 \<le> x"
    using assms(1) by (meson in_set_dropD in_set_takeD)
  then show "0 \<le> z" unfolding z using assms(2) by (rule sum_list_map2_nonneg)
qed

text \<open>The curve when the onset curve is at least as long as the window: sliding sums.\<close>

lemma onset_sum_curve_long:
  assumes "0 < window_size sr" "window_size sr \<le> length onset_env"
  shows "onset_sum_curve onset_env sr =
           Inr (map (\<lambda>k. sum_list (take (window_size sr) (drop k onset_env)))
                    [0 ..< length onset_env - window_size sr + 1])"
proof -
  have ne: "onset_env \<noteq> []" using assms by auto
  have "np_correlate_valid onset_env (rev (replicate (window_size sr) 1)) =
        map (\<lambda>k. sum_list (take (window_size sr) (drop k onset_env)))
            [0 ..< length onset_env - window_size sr + 1]"
    by (simp add: np_correlate_valid_def map2_mult_replicate_one del: upt_Suc)
  then show ?thesis
    using assms ne by (simp add: onset_sum_curve_def np_convolve_valid_def np_ones_def)
qed

text \<open>The curve when the onset curve is shorter than the window: NumPy has swapped the operands.\<close>

lemma onset_sum_curve_short:
  assumes "length onset_env < window_size sr"
  shows "onset_sum_curve onset_env sr =
           (if onset_env = [] then Inl (ValueError ''a cannot be empty'')
            else Inr (replicate (window_size sr - length onset_env + 1) (sum_list onset_env)))"
proof (cases "onset_env = []")
  case True
  then show ?thesis
    using assms by (simp add: onset_sum_curve_def np_convolve_valid_def np_ones_def)
next
  case False
  have "np_correlate_valid (replicate (window_size sr) 1) (rev onset_env) =
        replicate (window_size sr - length onset_env + 1) (sum_list onset_env)"
  proof (rule nth_equalityI)
    show "length (np_correlate_valid (replicate (window_size sr) 1) (rev onset_env)) =
          length (replicate (window_size sr - length onset_env + 1) (sum_list onset_env))"
      by (simp add: length_np_correlate_valid)
  next
    fix k assume "k < length (np_correlate_valid (replicate (window_size sr) 1) (rev onset_env))"
    then have k: "k < window_size sr - length onset_env + 1"
      by (simp add: length_np_correlate_valid)
    then have m: "min (length onset_env) (window_size sr - k) = length onset_env"
      using assms by simp
    have "np_correlate_valid (replicate (window_size sr) 1) (rev onset_env) ! k =
          sum_list (map2 (*) (take (length (rev onset_env)) (drop k (replicate (window_size sr) 1))) (rev onset_env))"
      using k by (intro nth_np_correlate_valid) simp
    also have "\<dots> = sum_list (map2 (*) (replicate (length onset_env) 1) (rev onset_env))"
      using m by (simp add: min.commute)
    also have "\<dots> = sum_list (rev onset_env)"
      by (simp only: map2_mult_one_replicate) simp
    also have "\<dots> = sum_list onset_env" by (simp add: rev_map[symmetric] sum_list_rev)
    finally have lhs: "np_correlate_valid (replicate (window_size sr) 1) (rev onset_env) ! k =
          sum_list onset_env" .
    have rhs: "replicate (window_size sr - length onset_env + 1) (sum_list onset_env) ! k =
          sum_list onset_env"
      using k by (rule nth_replicate)
    show "np_correlate_valid (replicate (window_size sr) 1) (rev onset_env) ! k =
          replicate (window_size sr - length onset_env + 1) (sum_list onset_env) ! k"
      by (simp only: lhs rhs)
  qed
  then show ?thesis
    using assms False by (simp add: onset_sum_curve_def np_convolve_valid_def np_ones_def)
qed

lemma onset_sum_curve_Inr_nonempty:
  assumes "onset_sum_curve onset_env sr = Inr curve"
  shows "curve \<noteq> []"
proof -
  have "length curve = max (length onset_env) (window_size sr) - min (length onset_env) (window_size sr) + 1"
    using assms
    by (auto simp: onset_sum_curve_def np_convolve_valid_def np_ones_def Let_def
        length_np_correlate_valid split: if_splits)
  then show ?thesis by auto
qed

lemma onset_sum_curve_nonneg:
  assumes "onset_sum_curve onset_env sr = Inr curve" "\<forall>x \<in> set onset_env. 0 \<le> x"
  shows "\<forall>z \<in> set curve. 0 \<le> z"
proof -
  have ones: "\<forall>y \<in> set (replicate (window_size sr) (1::real)). 0 \<le> y" by simp
  have rv: "\<forall>y \<in> set (rev onset_env). 0 \<le> y" using assms(2) by simp
  have rones: "\<forall>y \<in> set (rev (replicate (window_size sr) (1::real))). 0 \<le> y" by simp
  from assms(1) have "curve = np_correlate_valid (replicate (window_size sr) 1) (rev onset_env)
      \<or> curve = np_correlate_valid onset_env (rev (replicate (window_size sr) 1))"
    by (auto simp: onset_sum_curve_def np_convolve_valid_def np_ones_def Let_def split: if_splits)
  then show ?thesis
    using np_correlate_valid_nonneg[OF ones rv] np_correlate_valid_nonneg[OF assms(2) rones]
    by auto
qed

section \<open>Properties of the process\<close>

lemma boundary_policy_fst:
  "fst (boundary_policy t d s) =
     (if t > d - 20 then max 0 (d - 20) else t,
      min 20 (d - (if t > d - 20 then max 0 (d - 20) else t)))"
  by (simp add: boundary_policy_def Let_def)

lemma peak_analysis_InrD:
  assumes "peak_analysis onset_env sr = Inr (t0, r)"
  shows "\<exists>curve i. onset_sum_curve onset_env sr = Inr curve \<and> np_argmax curve = Inr i
           \<and> t0 = frames_to_time i sr \<and> np_mean curve \<noteq> 0
           \<and> r = fl (curve ! i / np_mean curve)"
  using assms
  by (auto simp: peak_analysis_def py_truediv_def Let_def split: sum.splits if_splits)

lemma try_body_InrD:
  assumes "try_body lib p s0 = (Inr u, s)"
  shows "\<exists>y sr d tempo0 beats tempo onset_env t0 r.
           load lib p = Inr (y, sr) \<and> get_duration y sr = Inr d
         \<and> beat_track lib y sr = Inr (tempo0, beats) \<and> tempo_item tempo0 = Inr tempo
         \<and> onset_strength lib y sr = Inr onset_env \<and> peak_analysis onset_env sr = Inr (t0, r)
         \<and> stdout s = stdout s0 @
              [highlight_result (fst (fst (boundary_policy t0 d s0))) (snd (fst (boundary_policy t0 d s0))) r]
         \<and> log_closed s \<and> exit_code s = exit_code s0"
  using assms
  by (auto simp: try_body_def Let_def split_def log_debug_def print_json_def close_log_def
      boundary_policy_def split: sum.splits prod.splits)

lemma try_body_success:
  assumes "load lib p = Inr (y, sr)" "get_duration y sr = Inr d"
    "beat_track lib y sr = Inr (tempo0, beats)" "tempo_item tempo0 = Inr tempo"
    "onset_strength lib y sr = Inr onset_env" "peak_analysis onset_env sr = Inr (t0, r)"
  shows "\<exists>s. try_body lib p s0 = (Inr (), s)
         \<and> stdout s = stdout s0 @
              [highlight_result (fst (fst (boundary_policy t0 d s0))) (snd (fst (boundary_policy t0 d s0))) r]
         \<and> log_closed s \<and> exit_code s = exit_code s0"
  using assms
  by (auto simp: try_body_def Let_def split_def log_debug_def print_json_def close_log_def
      boundary_policy_def split: sum.splits prod.splits)

lemma try_body_InlD:
  assumes "try_body lib p s0 = (Inl e, s)"
  shows "stdout s = stdout s0 \<and> exit_code s = exit_code s0"
  using assms
  by (auto simp: try_body_def Let_def split_def log_debug_def print_json_def close_log_def
      boundary_policy_def split: sum.splits prod.splits)

lemma run_no_argument:
  assumes "length argv < 2"
  shows "run lib argv =
     \<lparr>stdout = [error_result ''No audio file provided''], debug_log = [],
      log_closed = False, load_calls = [], exit_code = 1\<rparr>"
  using assms by (simp add: run_def startup_def sys_exit_def print_json_def)

lemma run_exit0D:
  assumes "exit_code (run lib argv) = 0"
  shows "2 \<le> length argv \<and>
         (\<exists>y sr d tempo0 beats tempo onset_env t0 r.
           load lib (argv ! 1) = Inr (y, sr) \<and> get_duration y sr = Inr d
         \<and> beat_track lib y sr = Inr (tempo0, beats) \<and> tempo_item tempo0 = Inr tempo
         \<and> onset_strength lib y sr = Inr onset_env \<and> peak_analysis onset_env sr = Inr (t0, r)
         \<and> stdout (run lib argv) =
              [highlight_result (if t0 > d - 20 then max 0 (d - 20) else t0)
                 (min 20 (d - (if t0 > d - 20 then max 0 (d - 20) else t0))) r])"
proof -
  from assms have len: "2 \<le> length argv"
    by (auto simp: run_def sys_exit_def split: if_splits)
  obtain res s where tb: "try_body lib (argv ! 1) startup = (res, s)"
    by (cases "try_body lib (argv ! 1) startup") auto
  show ?thesis
  proof (cases res)
    case (Inl e)
    with tb len assms show ?thesis
      by (simp add: run_def sys_exit_def Let_def)
  next
    case (Inr u)
    with tb len have rn: "run lib argv = s" by (simp add: run_def)
    from try_body_InrD[OF tb[unfolded Inr]] len show ?thesis
      unfolding rn by (auto simp: boundary_policy_fst startup_def)
  qed
qed

lemma run_success:
  assumes "2 \<le> length argv" "load lib (argv ! 1) = Inr (y, sr)" "get_duration y sr = Inr d"
    "beat_track lib y sr = Inr (tempo0, beats)" "tempo_item tempo0 = Inr tempo"
    "onset_strength lib y sr = Inr onset_env" "peak_analysis onset_env sr = Inr (t0, r)"
  shows "stdout (run lib argv) =
              [highlight_result (if t0 > d - 20 then max 0 (d - 20) else t0)
                 (min 20 (d - (if t0 > d - 20 then max 0 (d - 20) else t0))) r]
         \<and> exit_code (run lib argv) = 0 \<and> log_closed (run lib argv)"
proof -
  from try_body_success[OF assms(2-7), of startup] obtain s where
    s: "try_body lib (argv ! 1) startup = (Inr (), s)"
       "stdout s = stdout startup @
              [highlight_result (fst (fst (boundary_policy t0 d startup))) (snd (fst (boundary_policy t0 d startup))) r]"
       "log_closed s" "exit_code s = exit_code startup"
    by blast
  from s(1) assms(1) have rn: "run lib argv = s" by (simp add: run_def)
  show ?thesis unfolding rn using s(2-4) by (simp add: boundary_policy_fst startup_def)
qed

lemma run_failure:
  assumes "2 \<le> length argv" "try_body lib (argv ! 1) startup = (Inl e, s)"
  shows "stdout (run lib argv) = [error_result (str_exc e @ [CHR 0x0A] @ format_exc lib e)]
         \<and> exit_code (run lib argv) = 1 \<and> log_closed (run lib argv)"
  using assms try_body_InlD[OF assms(2)]
  by (simp add: run_def Let_def sys_exit_def close_log_def print_json_def startup_def)

lemma log_closed_with_argument:
  assumes "2 \<le> length argv"
  shows "log_closed (run lib argv)"
proof -
  obtain res s where tb: "try_body lib (argv ! 1) startup = (res, s)"
    by (cases "try_body lib (argv ! 1) startup") auto
  show ?thesis
  proof (cases res)
    case (Inl e)
    with tb assms show ?thesis by (simp add: run_failure)
  next
    case (Inr u)
    with tb assms have "run lib argv = s" by (simp add: run_def)
    with try_body_InrD[OF tb[unfolded Inr]] show ?thesis by auto
  qed
qed

lemma run_peak_failure:
  assumes "2 \<le> length argv" "load lib (argv ! 1) = Inr (y, sr)" 
    "onset_strength lib y sr = Inr onset_env" "peak_analysis onset_env sr = Inl e"
  shows "\<exists>msg. stdout (run lib argv) = [error_result msg] \<and> exit_code (run lib argv) = 1"
proof -
  obtain res s where tb: "try_body lib (argv ! 1) startup = (res, s)"
    by (cases "try_body lib (argv ! 1) startup") auto
  show ?thesis
  proof (cases res)
    case (Inl e')
    with tb assms(1) show ?thesis using run_failure by blast
  next
    case (Inr u)
    from try_body_InrD[OF tb[unfolded Inr]] assms(2-4) show ?thesis by auto
  qed
qed

lemma frames_to_time_nonneg: "0 \<le> frames_to_time i sr"
  by (simp add: frames_to_time_def)

lemma get_duration_InrD: "get_duration y sr = Inr d \<Longrightarrow> sr \<noteq> 0 \<and> d = real (length y) / real sr"
  by (auto simp: get_duration_def split: if_splits)

lemma np_argmax_replicate: "np_argmax (replicate (Suc m) c) = Inr 0"
proof -
  have "replicate (Suc m) c \<noteq> []" by simp
  from np_argmax_first[OF this] obtain i where
    i: "np_argmax (replicate (Suc m) c) = Inr i" "i < length (replicate (Suc m) c)"
       "\<forall>j < i. replicate (Suc m) c ! j < replicate (Suc m) c ! i"
    by blast
  have "i = 0"
  proof (rule ccontr)
    assume "i \<noteq> 0"
    then have "0 < i" by simp
    with i(3) have "replicate (Suc m) c ! 0 < replicate (Suc m) c ! i" by blast
    moreover have "replicate (Suc m) c ! i = c" using i(2) by (simp only: nth_replicate length_replicate)
    moreover have "replicate (Suc m) c ! 0 = c" by simp
    ultimately show False by simp
  qed
  with i(1) show ?thesis by simp
qed

lemma onset_sum_curve_uniform:
  assumes "0 < window_size sr" "window_size sr \<le> n"
  shows "onset_sum_curve (replicate n c) sr =
           Inr (replicate (Suc (n - window_size sr)) (real (window_size sr) * c))"
proof -
  have "map (\<lambda>k. sum_list (take (window_size sr) (drop k (replicate n c))))
            [0 ..< n - window_size sr + 1] =
        map (\<lambda>k. real (window_size sr) * c) [0 ..< n - window_size sr + 1]"
  proof (rule map_cong[OF refl])
    fix k assume "k \<in> set [0 ..< n - window_size sr + 1]"
    then have "min (window_size sr) (n - k) = window_size sr" using assms by auto
    then show "sum_list (take (window_size sr) (drop k (replicate n c))) = real (window_size sr) * c"
      by (simp add: sum_list_replicate)
  qed
  also have "\<dots> = replicate (Suc (n - window_size sr)) (real (window_size sr) * c)"
    by (simp add: map_replicate_const del: upt_Suc replicate_Suc)
  finally show ?thesis
    using onset_sum_curve_long[of sr "replicate n c"] assms by simp
qed

lemma load_InrD: "load lib p = Inr (y, sr) \<Longrightarrow> sr = 22050"
  by (auto simp: load_def default_sr_def split: sum.splits)

lemma onset_strength_nonneg:
  "onset_strength lib y sr = Inr onset_env \<Longrightarrow> \<forall>x \<in> set onset_env. 0 \<le> x"
  by (auto simp: onset_strength_def split: sum.splits if_splits)

lemma onset_strength_empty:
  "onset_strength lib [] sr = Inr onset_env \<Longrightarrow> \<forall>x \<in> set onset_env. x = 0"
  by (auto simp: onset_strength_def split: sum.splits)

lemma sum_list_all_zero:
  fixes zs :: "real list"
  shows "\<forall>z \<in> set zs. z = 0 \<Longrightarrow> sum_list zs = 0"
  by (induction zs) simp_all

lemma sum_list_map2_zero:
  fixes xs ys :: "real list"
  assumes "(\<forall>x \<in> set xs. x = 0) \<or> (\<forall>y \<in> set ys. y = 0)"
  shows "sum_list (map2 (*) xs ys) = 0"
proof -
  have "\<forall>z \<in> set (map2 (*) xs ys). z = 0"
  proof
    fix z assume "z \<in> set (map2 (*) xs ys)"
    then obtain x y where "(x, y) \<in> set (zip xs ys)" "z = x * y" by auto
    then have "x \<in> set xs" "y \<in> set ys" by (auto dest: set_zip_leftD set_zip_rightD)
    with assms \<open>z = x * y\<close> show "z = 0" by auto
  qed
  then show ?thesis by (rule sum_list_all_zero)
qed

lemma np_correlate_valid_zero:
  assumes "(\<forall>x \<in> set a. x = 0) \<or> (\<forall>y \<in> set w. y = 0)"
  shows "\<forall>z \<in> set (np_correlate_valid a w). z = 0"
proof
  fix z assume "z \<in> set (np_correlate_valid a w)"
  then obtain k where z: "z = sum_list (map2 (*) (take (length w) (drop k a)) w)"
    by (auto simp add: np_correlate_valid_def simp del: upt_Suc)
  have "(\<forall>x \<in> set (take (length w) (drop k a)). x = 0) \<or> (\<forall>y \<in> set w. y = 0)"
    using assms by (meson in_set_dropD in_set_takeD)
  then show "z = 0" unfolding z by (rule sum_list_map2_zero)
qed

lemma onset_sum_curve_zero:
  assumes "onset_sum_curve onset_env sr = Inr curve" "\<forall>x \<in> set onset_env. x = 0"
  shows "\<forall>z \<in> set curve. z = 0"
proof -
  have rv: "\<forall>y \<in> set (rev onset_env). y = 0" using assms(2) by simp
  from assms(1) have "curve = np_correlate_valid (replicate (window_size sr) 1) (rev onset_env)
      \<or> curve = np_correlate_valid onset_env (rev (replicate (window_size sr) 1))"
    by (auto simp: onset_sum_curve_def np_convolve_valid_def np_ones_def Let_def split: if_splits)
  then show ?thesis
    using np_correlate_valid_zero[of "replicate (window_size sr) 1" "rev onset_env"]
      np_correlate_valid_zero[of onset_env "rev (replicate (window_size sr) 1)"] rv assms(2)
    by auto
qed

lemma peak_analysis_zero_mean:
  assumes "onset_sum_curve onset_env sr = Inr curve" "np_mean curve = 0"
  shows "\<exists>e. peak_analysis onset_env sr = Inl e"
  using assms by (auto simp: peak_analysis_def py_truediv_def Let_def split: sum.splits)

lemma run_exit0_nonempty:
  assumes "exit_code (run lib argv) = 0" "load lib (argv ! 1) = Inr (y, sr)"
  shows "y \<noteq> []"
proof
  assume e: "y = []"
  from run_exit0D[OF assms(1)] assms(2) obtain onset_env t0 r where
    os: "onset_strength lib y sr = Inr onset_env" and
    pa: "peak_analysis onset_env sr = Inr (t0, r)"
    by auto
  from peak_analysis_InrD[OF pa] obtain curve where
    c: "onset_sum_curve onset_env sr = Inr curve" "np_mean curve \<noteq> 0" by blast
  have "\<forall>x \<in> set onset_env. x = 0" using os unfolding e by (rule onset_strength_empty)
  from onset_sum_curve_zero[OF c(1) this] have "np_mean curve = 0" by (rule np_mean_zero)
  with c(2) show False by simp
qed

lemma peak_ratio_bound:
  assumes pa: "peak_analysis onset_env sr = Inr (t0, r)"
    and nn: "\<forall>x \<in> set onset_env. 0 \<le> x"
    and c: "onset_sum_curve onset_env sr = Inr curve"
  shows "1 - real (length curve + 3) * unit_roundoff \<le> r"
proof -
  from peak_analysis_InrD[OF pa] c obtain i where
    i: "np_argmax curve = Inr i" "np_mean curve \<noteq> 0" "r = fl (curve ! i / np_mean curve)"
    by auto
  have ne: "curve \<noteq> []" using c by (rule onset_sum_curve_Inr_nonempty)
  from np_argmax_first[OF ne] i(1) have il: "i < length curve"
    and top: "\<forall>j < length curve. curve ! j \<le> curve ! i" by auto
  have cn: "\<forall>z \<in> set curve. 0 \<le> z" using c nn by (rule onset_sum_curve_nonneg)
  have M: "0 \<le> curve ! i" using cn il by simp
  have el: "\<forall>x \<in> set curve. 0 \<le> x \<and> x \<le> curve ! i"
    using cn top by (auto simp: in_set_conv_nth)
  from np_mean_bound[OF M el ne] i(2)
  have m: "0 < np_mean curve"
          "np_mean curve \<le> curve ! i * (1 + unit_roundoff) ^ (length curve + 2)"
    by simp_all
  from ratio_lower_bound[OF m] show ?thesis by (simp add: i(3) add.commute)
qed

lemma peak_analysis_short:
  assumes ne: "onset_env \<noteq> []" and sh: "length onset_env < window_size sr"
    and nn: "\<forall>x \<in> set onset_env. 0 \<le> x"
  shows "peak_analysis onset_env sr =
           (if sum_list onset_env = 0 then Inl (ZeroDivisionError ''float division by zero'')
            else Inr (0, fl (sum_list onset_env /
                   np_mean (replicate (Suc (window_size sr - length onset_env))
                              (sum_list onset_env)))))"
proof -
  let ?T = "sum_list onset_env"
  let ?k = "Suc (window_size sr - length onset_env)"
  have c: "onset_sum_curve onset_env sr = Inr (replicate ?k ?T)"
    using onset_sum_curve_short[OF sh] ne by simp
  have T0: "0 \<le> ?T" using nn by (simp add: sum_list_nonneg)
  have mz: "np_mean (replicate ?k ?T) = 0 \<longleftrightarrow> ?T = 0"
  proof
    assume z: "np_mean (replicate ?k ?T) = 0"
    show "?T = 0"
    proof (rule ccontr)
      assume "?T \<noteq> 0"
      with T0 have "0 < ?T" by simp
      then have "\<forall>x \<in> set (replicate ?k ?T). 0 < x" by simp
      moreover have "replicate ?k ?T \<noteq> []" by simp
      ultimately have "0 < np_mean (replicate ?k ?T)" by (rule np_mean_pos)
      with z show False by simp
    qed
  next
    assume "?T = 0"
    then have "\<forall>x \<in> set (replicate ?k ?T). x = 0" by simp
    then show "np_mean (replicate ?k ?T) = 0" by (rule np_mean_zero)
  qed
  show ?thesis
    unfolding peak_analysis_def c
    using mz by (simp add: np_argmax_replicate py_truediv_def frames_to_time_def
        del: replicate_Suc)
qed

lemma fixed_lib_simps:
  "load (fixed_lib y tempo beats flux) p = Inr (y, 22050)"
  "beat_track (fixed_lib y tempo beats flux) w r = Inr (tempo, beats)"
  "onset_strength (fixed_lib y tempo beats flux) w r =
     Inr (if w = [] then map (\<lambda>v. 0) flux else map (max 0) flux)"
  "format_exc (fixed_lib y tempo beats flux) e = ''Traceback (most recent call last):''"
  by (simp_all add: fixed_lib_def load_def onset_strength_def default_sr_def)

section \<open>Concrete runs\<close>

lemma peak_analysis_eval:
  assumes "onset_sum_curve onset_env sr = Inr curve" and "np_argmax curve = Inr i"
    and "np_mean curve = m" and "m \<noteq> 0" and "fl (curve ! i / m) = r"
    and "frames_to_time i sr = t"
  shows "peak_analysis onset_env sr = Inr (t, r)"
  using assms by (simp add: peak_analysis_def py_truediv_def Let_def)

text \<open>
  A track of 111104 samples (a little over five seconds, 218 frames) whose window sums
  reach their maximum twice, at the windows 1 and 3.
\<close>

lemma tie_curve:
  "onset_sum_curve ([0, 1, 0, 1] @ replicate 211 0 @ [3, 0, 1]) 22050 = Inr [2, 5, 4, 5]"
proof -
  have u: "[0 ..< 4] = [0, 1, 2, 3::nat]" by (simp add: upt_rec)
  have "onset_sum_curve ([0, 1, 0, 1] @ replicate 211 0 @ [3, 0, 1]) 22050 =
        Inr (map (\<lambda>k. sum_list (take (window_size 22050)
                                   (drop k ([0, 1, 0, 1] @ replicate 211 0 @ [3, 0, 1]))))
                 [0 ..< length ([0, 1, 0, 1] @ replicate 211 (0::real) @ [3, 0, 1])
                          - window_size 22050 + 1])"
    by (rule onset_sum_curve_long) (simp_all add: window_size_default)
  also have "\<dots> = Inr [2, 5, 4, 5]"
    by (simp add: window_size_default u sum_list_replicate drop_Cons' take_Cons')
  finally show ?thesis .
qed

lemma tie_mean: "np_mean [2, 5, 4, 5] = 4"
  by (simp add: np_mean_def pairwise_sum.simps fl_eval)

lemma tie_peak:
  "peak_analysis ([0, 1, 0, 1] @ replicate 211 0 @ [3, 0, 1]) 22050 = Inr (256 / 11025, 5 / 4)"
proof (rule peak_analysis_eval[OF tie_curve _ tie_mean, where i = 1])
  show "np_argmax [2, 5, 4, 5] = Inr 1" by (simp add: np_argmax_def)
  show "(4::real) \<noteq> 0" by simp
  show "fl ([2, 5, 4, 5] ! 1 / 4) = 5 / 4" by (simp add: fl_eval)
  show "frames_to_time 1 22050 = 256 / 11025" by (simp add: frames_to_time_def hop_length_def)
qed

lemma tie_onset:
  "onset_strength (fixed_lib (replicate 111104 0) tempo beats
       ([0, 1, 0, 1] @ replicate 211 0 @ [3, 0, 1])) (replicate 111104 0) 22050 =
     Inr ([0, 1, 0, 1] @ replicate 211 0 @ [3, 0, 1])"
  by (simp add: fixed_lib_simps)

lemma tie_run:
  assumes "tempo_item tempo0 = Inr tempo"
  shows "exit_code (run (fixed_lib (replicate 111104 0) tempo0 beats
           ([0, 1, 0, 1] @ replicate 211 0 @ [3, 0, 1])) [''extract_highlight.py'', ''riff.wav'']) = 0
   \<and> stdout (run (fixed_lib (replicate 111104 0) tempo0 beats
           ([0, 1, 0, 1] @ replicate 211 0 @ [3, 0, 1])) [''extract_highlight.py'', ''riff.wav'']) =
       [highlight_result 0 (7936 / 1575) (5 / 4)]"
proof -
  let ?lib = "fixed_lib (replicate 111104 0) tempo0 beats
           ([0, 1, 0, 1] @ replicate 211 0 @ [3, 0, 1])"
  let ?argv = "[''extract_highlight.py'', ''riff.wav'']"
  have h1: "2 \<le> length ?argv" by simp
  have h2: "load ?lib (?argv ! 1) = Inr (replicate 111104 0, 22050)"
    by (simp add: fixed_lib_simps)
  have h3: "get_duration (replicate 111104 0) 22050 = Inr (7936 / 1575)"
    by (simp add: get_duration_def)
  have h4: "beat_track ?lib (replicate 111104 0) 22050 = Inr (tempo0, beats)"
    by (simp add: fixed_lib_simps)
  have st: "(if 256 / 11025 > 7936 / 1575 - (20::real) then max 0 (7936 / 1575 - 20)
             else 256 / 11025) = (0::real)" by simp
  have du: "min 20 (7936 / 1575 - (0::real)) = 7936 / 1575" by simp
  from run_success[OF h1 h2 h3 h4 assms tie_onset tie_peak]
  show ?thesis by (simp only: st du)
qed

text \<open>
  A track of 112128 samples (220 frames) with onsets of strength 1 and \<open>3/2^51\<close> in the
  frames 0 and 1 and again in the frames 215 and 216: each of the six windows holds
  exactly one onset of each strength, so all six window sums are \<open>1 + 3/2^51\<close>.
\<close>

lemma click_curve:
  "onset_sum_curve ([1, 3 / 2 ^ 51] @ replicate 213 0 @ [1, 3 / 2 ^ 51, 0, 0, 0]) 22050 =
     Inr [1 + 3 / 2 ^ 51, 1 + 3 / 2 ^ 51, 1 + 3 / 2 ^ 51,
          1 + 3 / 2 ^ 51, 1 + 3 / 2 ^ 51, 1 + 3 / 2 ^ 51]"
proof -
  have u: "[0 ..< 6] = [0, 1, 2, 3, 4, 5::nat]" by (simp add: upt_rec)
  have "onset_sum_curve ([1, 3 / 2 ^ 51] @ replicate 213 0 @ [1, 3 / 2 ^ 51, 0, 0, 0]) 22050 =
        Inr (map (\<lambda>k. sum_list (take (window_size 22050)
               (drop k ([1, 3 / 2 ^ 51] @ replicate 213 0 @ [1, 3 / 2 ^ 51, 0, 0, 0]))))
             [0 ..< length ([1, 3 / 2 ^ 51] @ replicate 213 (0::real) @ [1, 3 / 2 ^ 51, 0, 0, 0])
                      - window_size 22050 + 1])"
    by (rule onset_sum_curve_long) (simp_all add: window_size_default)
  also have "\<dots> = Inr [1 + 3 / 2 ^ 51, 1 + 3 / 2 ^ 51, 1 + 3 / 2 ^ 51,
          1 + 3 / 2 ^ 51, 1 + 3 / 2 ^ 51, 1 + 3 / 2 ^ 51]"
    by (simp add: window_size_default u sum_list_replicate drop_Cons' take_Cons')
  finally show ?thesis .
qed

lemma click_mean:
  "np_mean [1 + 3 / 2 ^ 51, 1 + 3 / 2 ^ 51, 1 + 3 / 2 ^ 51,
            1 + 3 / 2 ^ 51, 1 + 3 / 2 ^ 51, 1 + 3 / 2 ^ 51] = 1 + 7 / 2 ^ 52"
  by (simp add: np_mean_def pairwise_sum.simps fl_eval)

lemma click_ratio:
  "fl ((1 + 3 / 2 ^ 51) / (1 + 7 / 2 ^ 52)) = 4503599627370495 / 4503599627370496"
  by (simp add: fl_eval)

lemma click_peak:
  "peak_analysis ([1, 3 / 2 ^ 51] @ replicate 213 0 @ [1, 3 / 2 ^ 51, 0, 0, 0]) 22050 =
     Inr (0, 4503599627370495 / 4503599627370496)"
proof (rule peak_analysis_eval[OF click_curve _ click_mean, where i = 0])
  show "np_argmax [1 + 3 / 2 ^ 51, 1 + 3 / 2 ^ 51, 1 + 3 / 2 ^ 51,
          1 + 3 / 2 ^ 51, 1 + 3 / 2 ^ 51, 1 + 3 / (2 ^ 51 :: real)] = Inr 0"
    by (simp add: np_argmax_def)
  show "(1 + 7 / 2 ^ 52 :: real) \<noteq> 0" by simp
  show "fl ([1 + 3 / 2 ^ 51, 1 + 3 / 2 ^ 51, 1 + 3 / 2 ^ 51,
          1 + 3 / 2 ^ 51, 1 + 3 / 2 ^ 51, 1 + 3 / 2 ^ 51] ! 0 / (1 + 7 / 2 ^ 52)) =
        4503599627370495 / 4503599627370496"
    using click_ratio by (simp only: nth_Cons_0)
  show "frames_to_time 0 22050 = 0" by (simp add: frames_to_time_def)
qed

lemma click_onset:
  "onset_strength (fixed_lib (replicate 112128 0) tempo beats
       ([1, 3 / 2 ^ 51] @ replicate 213 0 @ [1, 3 / 2 ^ 51, 0, 0, 0]))
     (replicate 112128 0) 22050 =
     Inr ([1, 3 / 2 ^ 51] @ replicate 213 0 @ [1, 3 / 2 ^ 51, 0, 0, 0])"
  by (simp add: fixed_lib_simps)

lemma click_run:
  "exit_code (run (fixed_lib (replicate 112128 0) (TempoScalar 0) []
           ([1, 3 / 2 ^ 51] @ replicate 213 0 @ [1, 3 / 2 ^ 51, 0, 0, 0]))
        [''extract_highlight.py'', ''click.wav'']) = 0
   \<and> stdout (run (fixed_lib (replicate 112128 0) (TempoScalar 0) []
           ([1, 3 / 2 ^ 51] @ replicate 213 0 @ [1, 3 / 2 ^ 51, 0, 0, 0]))
        [''extract_highlight.py'', ''click.wav'']) =
       [highlight_result 0 (18688 / 3675) (4503599627370495 / 4503599627370496)]"
proof -
  let ?lib = "fixed_lib (replicate 112128 0) (TempoScalar 0) []
           ([1, 3 / 2 ^ 51] @ replicate 213 0 @ [1, 3 / 2 ^ 51, 0, 0, 0])"
  let ?argv = "[''extract_highlight.py'', ''click.wav'']"
  have h1: "2 \<le> length ?argv" by simp
  have h2: "load ?lib (?argv ! 1) = Inr (replicate 112128 0, 22050)"
    by (simp add: fixed_lib_simps)
  have h3: "get_duration (replicate 112128 0) 22050 = Inr (18688 / 3675)"
    by (simp add: get_duration_def)
  have h4: "beat_track ?lib (replicate 112128 0) 22050 = Inr (TempoScalar 0, [])"
    by (simp add: fixed_lib_simps)
  have h5: "tempo_item (TempoScalar 0) = Inr 0" by simp
  have st: "(if 0 > 18688 / 3675 - (20::real) then max 0 (18688 / 3675 - 20)
             else 0) = (0::real)" by simp
  have du: "min 20 (18688 / 3675 - (0::real)) = 18688 / 3675" by simp
  from run_success[OF h1 h2 h3 h4 h5 click_onset click_peak]
  show ?thesis by (simp only: st du)
qed

lemma run_exit0_output:
  assumes "exit_code (run lib argv) = 0" and "load lib (argv ! 1) = Inr (y, sr)"
  shows "\<exists>onset_env t0 r.
           onset_strength lib y sr = Inr onset_env \<and> peak_analysis onset_env sr = Inr (t0, r)
         \<and> stdout (run lib argv) =
              [[(''start'', JNumber (if t0 > real (length y) / real sr - 20
                                     then max 0 (real (length y) / real sr - 20) else t0)),
                (''duration'', JNumber (min 20 (real (length y) / real sr -
                                     (if t0 > real (length y) / real sr - 20
                                      then max 0 (real (length y) / real sr - 20) else t0)))),
                (''confidence'', JNumber r),
                (''energy_ratio'', JNumber r)]]"
proof -
  from run_exit0D[OF assms(1)] assms(2) obtain d onset_env t0 r where
    d: "get_duration y sr = Inr d" and
    os: "onset_strength lib y sr = Inr onset_env" and
    pa: "peak_analysis onset_env sr = Inr (t0, r)" and
    out: "stdout (run lib argv) =
              [highlight_result (if t0 > d - 20 then max 0 (d - 20) else t0)
                 (min 20 (d - (if t0 > d - 20 then max 0 (d - 20) else t0))) r]"
    by auto
  from get_duration_InrD[OF d] have dd: "d = real (length y) / real sr" by simp
  from os pa out show ?thesis unfolding dd highlight_result_def by blast
qed

lemma silent_curve:
  "onset_sum_curve (replicate 1292 0) 22050 = Inr (replicate 1078 0)"
  using onset_sum_curve_uniform[of 22050 1292 0] by (simp add: window_size_default)

lemma fixed_lib_update:
  "(fixed_lib y tempo0 beats0 flux)\<lparr>beat_track := \<lambda>w r. Inr (tempo, beats)\<rparr> =
     fixed_lib y tempo beats flux"
  by (simp add: fixed_lib_def)

text \<open>
  A track of 106496 samples (4.83 seconds, 209 frames, fewer than the 215 of the window)
  with onset strength 1 in every frame.
\<close>

lemma short_mean: "np_mean (replicate 7 209) = 209"
proof -
  have r: "replicate 7 (209::real) = [209, 209, 209, 209, 209, 209, 209]"
    by (simp add: eval_nat_numeral)
  show ?thesis unfolding r by (simp add: np_mean_def pairwise_sum.simps fl_eval)
qed

lemma short_peak: "peak_analysis (replicate 209 1) 22050 = Inr (0, 1)"
proof -
  have ne: "replicate 209 (1::real) \<noteq> []" by simp
  have sh: "length (replicate 209 (1::real)) < window_size 22050"
    by (simp add: window_size_default)
  have nn: "\<forall>x \<in> set (replicate 209 (1::real)). 0 \<le> x" by simp
  have q: "fl 1 = 1" by (simp add: fl_eval)
  from peak_analysis_short[OF ne sh nn] show ?thesis
    by (simp add: window_size_default sum_list_replicate short_mean q)
qed

section \<open>The claims\<close>

text \<open>
  C1. A run that prints a Highlight Result and exits with code 0 prints the four fields
  \<open>start\<close>, \<open>duration\<close>, \<open>confidence\<close>, \<open>energy_ratio\<close> with a start that is not negative,
  a duration that is positive and at most twenty seconds, and a clip that ends no later
  than the track does. The bounds hold exactly, hence for every tolerance \<open>eps \<ge> 0\<close>. The
  track duration is \<open>len(y) / sr\<close> for the decoded waveform; it is positive on this path,
  because a waveform without samples has an onset envelope of zeros and fails at line 64.
\<close>

theorem highlight_bounds:
  assumes "exit_code (run lib argv) = 0" and "load lib (argv ! 1) = Inr (y, sr)" and "0 \<le> eps"
  shows "\<exists>start dur ratio.
           stdout (run lib argv) =
             [[(''start'', JNumber start), (''duration'', JNumber dur),
               (''confidence'', JNumber ratio), (''energy_ratio'', JNumber ratio)]]
         \<and> 0 \<le> start
         \<and> 0 < dur
         \<and> start + dur \<le> real (length y) / real sr + eps
         \<and> dur \<le> 20 + eps"
proof -
  define d where "d = real (length y) / real sr"
  from run_exit0_output[OF assms(1,2)] obtain onset_env t0 r where
    pa: "peak_analysis onset_env sr = Inr (t0, r)" and
    out: "stdout (run lib argv) =
              [[(''start'', JNumber (if t0 > d - 20 then max 0 (d - 20) else t0)),
                (''duration'', JNumber (min 20 (d - (if t0 > d - 20 then max 0 (d - 20) else t0)))),
                (''confidence'', JNumber r), (''energy_ratio'', JNumber r)]]"
    unfolding d_def by blast
  have sr: "sr = 22050" using assms(2) by (rule load_InrD)
  have "y \<noteq> []" using assms(1,2) by (rule run_exit0_nonempty)
  then have dpos: "0 < d" unfolding d_def sr by simp
  from peak_analysis_InrD[OF pa] have t0: "0 \<le> t0" by (auto simp: frames_to_time_nonneg)
  define st where "st = (if t0 > d - 20 then max 0 (d - 20) else t0)"
  have "0 \<le> st" using t0 by (simp add: st_def)
  moreover have "0 < min 20 (d - st)" using dpos by (auto simp: st_def)
  moreover have "st + min 20 (d - st) \<le> d + eps" using assms(3) by (auto simp: st_def)
  moreover have "min 20 (d - st) \<le> 20 + eps" using assms(3) by auto
  ultimately show ?thesis using out unfolding st_def[symmetric] d_def[symmetric] by blast
qed

theorem highlight_bounds_witness:
  "exit_code (run (fixed_lib (replicate 111104 0) (TempoArray [120]) [43, 86]
        ([0, 1, 0, 1] @ replicate 211 0 @ [3, 0, 1])) [''extract_highlight.py'', ''riff.wav'']) = 0
   \<and> load (fixed_lib (replicate 111104 0) (TempoArray [120]) [43, 86]
        ([0, 1, 0, 1] @ replicate 211 0 @ [3, 0, 1])) ([''extract_highlight.py'', ''riff.wav''] ! 1) =
       Inr (replicate 111104 0, 22050)
   \<and> stdout (run (fixed_lib (replicate 111104 0) (TempoArray [120]) [43, 86]
        ([0, 1, 0, 1] @ replicate 211 0 @ [3, 0, 1])) [''extract_highlight.py'', ''riff.wav'']) =
       [[(''start'', JNumber 0), (''duration'', JNumber (7936 / 1575)),
         (''confidence'', JNumber (5 / 4)), (''energy_ratio'', JNumber (5 / 4))]]
   \<and> (0::real) \<le> 0 \<and> (0::real) < 7936 / 1575
   \<and> (0::real) + 7936 / 1575 \<le> real (length (replicate 111104 (0::real))) / real 22050 + 1 / 1000000
   \<and> (7936 / 1575 :: real) \<le> 20 + 1 / 1000000"
proof -
  let ?lib = "fixed_lib (replicate 111104 0) (TempoArray [120]) [43, 86]
        ([0, 1, 0, 1] @ replicate 211 0 @ [3, 0, 1])"
  let ?argv = "[''extract_highlight.py'', ''riff.wav'']"
  have ti: "tempo_item (TempoArray [120]) = Inr 120" by simp
  note ok = tie_run[OF ti, of "[43, 86]"]
  have ld: "load ?lib (?argv ! 1) = Inr (replicate 111104 0, 22050)"
    by (simp add: fixed_lib_simps)
  have out: "stdout (run ?lib ?argv) =
       [[(''start'', JNumber 0), (''duration'', JNumber (7936 / 1575)),
         (''confidence'', JNumber (5 / 4)), (''energy_ratio'', JNumber (5 / 4))]]"
    using ok by (simp add: highlight_result_def)
  from highlight_bounds[OF conjunct1[OF ok] ld, of "1 / 1000000"] obtain start dur ratio where
    r: "stdout (run ?lib ?argv) =
             [[(''start'', JNumber start), (''duration'', JNumber dur),
               (''confidence'', JNumber ratio), (''energy_ratio'', JNumber ratio)]]"
       "0 \<le> start" "0 < dur"
       "start + dur \<le> real (length (replicate 111104 (0::real))) / real 22050 + 1 / 1000000"
       "dur \<le> 20 + 1 / 1000000"
    by auto
  from r(1) out have "start = 0" "dur = 7936 / 1575" by simp_all
  with r have "(0::real) \<le> 0 \<and> (0::real) < 7936 / 1575
   \<and> (0::real) + 7936 / 1575 \<le> real (length (replicate 111104 (0::real))) / real 22050 + 1 / 1000000
   \<and> (7936 / 1575 :: real) \<le> 20 + 1 / 1000000" by blast
  with ok ld out show ?thesis by blast
qed

text \<open>
  C2. When the onset curve has fewer frames than the window, \<open>np.convolve\<close> swaps its
  operands: for a non-empty onset curve the Window Energy Curve is not empty but holds
  \<open>window_size - len(onset_env) + 1\<close> copies of the total onset strength. The run fails
  when the onset curve is empty (the convolution raises \<open>ValueError\<close>) or its total is zero
  (line 64 divides by zero); otherwise it exits with code 0 and prints a Highlight Result
  with start 0 and the track length, capped at twenty seconds, as duration.
\<close>

theorem short_onset_curve:
  assumes "2 \<le> length argv" and "load lib (argv ! 1) = Inr (y, sr)"
    and "beat_track lib y sr = Inr (tempo0, beats)" and "tempo_item tempo0 = Inr tempo"
    and "onset_strength lib y sr = Inr onset_env"
    and "length onset_env < window_size sr"
  shows "(onset_env = [] \<longrightarrow> (\<exists>msg. onset_sum_curve onset_env sr = Inl (ValueError msg)))
       \<and> (onset_env \<noteq> [] \<longrightarrow>
            onset_sum_curve onset_env sr =
              Inr (replicate (window_size sr - length onset_env + 1) (sum_list onset_env)))
       \<and> (onset_env = [] \<or> sum_list onset_env = 0 \<longrightarrow>
            exit_code (run lib argv) = 1
          \<and> (\<exists>msg. stdout (run lib argv) = [[(''error'', JString msg)]]))
       \<and> (onset_env \<noteq> [] \<and> sum_list onset_env \<noteq> 0 \<longrightarrow>
            exit_code (run lib argv) = 0
          \<and> (\<exists>ratio. stdout (run lib argv) =
                [[(''start'', JNumber 0),
                  (''duration'', JNumber (min 20 (real (length y) / real sr))),
                  (''confidence'', JNumber ratio), (''energy_ratio'', JNumber ratio)]]))"
proof -
  have sr: "sr \<noteq> 0" using assms(6) by (auto simp: window_size_div intro: ccontr)
  have d: "get_duration y sr = Inr (real (length y) / real sr)"
    using sr by (simp add: get_duration_def)
  have nn: "\<forall>x \<in> set onset_env. 0 \<le> x" using assms(5) by (rule onset_strength_nonneg)
  note curve = onset_sum_curve_short[OF assms(6)]
  have a: "onset_env = [] \<longrightarrow> (\<exists>msg. onset_sum_curve onset_env sr = Inl (ValueError msg))"
    using curve by auto
  have b: "onset_env \<noteq> [] \<longrightarrow>
            onset_sum_curve onset_env sr =
              Inr (replicate (window_size sr - length onset_env + 1) (sum_list onset_env))"
    using curve by simp
  have c: "onset_env = [] \<or> sum_list onset_env = 0 \<longrightarrow>
            exit_code (run lib argv) = 1
          \<and> (\<exists>msg. stdout (run lib argv) = [[(''error'', JString msg)]])"
  proof
    assume h: "onset_env = [] \<or> sum_list onset_env = 0"
    have "\<exists>e. peak_analysis onset_env sr = Inl e"
    proof (cases "onset_env = []")
      case True
      then show ?thesis using curve by (simp add: peak_analysis_def)
    next
      case False
      with h peak_analysis_short[OF False assms(6) nn] show ?thesis by simp
    qed
    then obtain e where "peak_analysis onset_env sr = Inl e" ..
    from run_peak_failure[OF assms(1,2,5) this]
    show "exit_code (run lib argv) = 1
          \<and> (\<exists>msg. stdout (run lib argv) = [[(''error'', JString msg)]])"
      by (auto simp: error_result_def)
  qed
  have e: "onset_env \<noteq> [] \<and> sum_list onset_env \<noteq> 0 \<longrightarrow>
            exit_code (run lib argv) = 0
          \<and> (\<exists>ratio. stdout (run lib argv) =
                [[(''start'', JNumber 0),
                  (''duration'', JNumber (min 20 (real (length y) / real sr))),
                  (''confidence'', JNumber ratio), (''energy_ratio'', JNumber ratio)]])"
  proof
    assume h: "onset_env \<noteq> [] \<and> sum_list onset_env \<noteq> 0"
    then obtain r where pa: "peak_analysis onset_env sr = Inr (0, r)"
      using peak_analysis_short[OF _ assms(6) nn] by simp
    have "0 \<le> real (length y) / real sr" by simp
    then have st: "(if 0 > real (length y) / real sr - 20
                    then max 0 (real (length y) / real sr - 20) else 0) = (0::real)"
      by auto
    from run_success[OF assms(1,2) d assms(3,4,5) pa]
    have "exit_code (run lib argv) = 0"
      "stdout (run lib argv) = [highlight_result 0 (min 20 (real (length y) / real sr)) r]"
      unfolding st by simp_all
    then show "exit_code (run lib argv) = 0
          \<and> (\<exists>ratio. stdout (run lib argv) =
                [[(''start'', JNumber 0),
                  (''duration'', JNumber (min 20 (real (length y) / real sr))),
                  (''confidence'', JNumber ratio), (''energy_ratio'', JNumber ratio)]])"
      by (auto simp: highlight_result_def)
  qed
  from a b c e show ?thesis by blast
qed

theorem short_onset_curve_witness:
  "2 \<le> length [''extract_highlight.py'', ''clip.wav'']
   \<and> length (replicate 44 (1::real)) < window_size 22050
   \<and> replicate 44 (1::real) \<noteq> [] \<and> sum_list (replicate 44 (1::real)) \<noteq> 0
   \<and> onset_sum_curve (replicate 44 1) 22050 = Inr (replicate 172 44)
   \<and> exit_code (run (fixed_lib (replicate 22050 0) (TempoArray [0]) [] (replicate 44 1))
       [''extract_highlight.py'', ''clip.wav'']) = 0"
proof -
  let ?lib = "fixed_lib (replicate 22050 0) (TempoArray [0]) [] (replicate 44 1)"
  let ?argv = "[''extract_highlight.py'', ''clip.wav'']"
  have h1: "2 \<le> length ?argv" by simp
  have h2: "load ?lib (?argv ! 1) = Inr (replicate 22050 0, 22050)" by (simp add: fixed_lib_simps)
  have h3: "beat_track ?lib (replicate 22050 0) 22050 = Inr (TempoArray [0], [])"
    by (simp add: fixed_lib_simps)
  have h4: "tempo_item (TempoArray [0]) = Inr 0" by simp
  have h5: "onset_strength ?lib (replicate 22050 0) 22050 = Inr (replicate 44 1)"
    by (simp add: fixed_lib_simps)
  have h6: "length (replicate 44 (1::real)) < window_size 22050"
    by (simp add: window_size_default)
  have ne: "replicate 44 (1::real) \<noteq> [] \<and> sum_list (replicate 44 (1::real)) \<noteq> 0"
    by (simp add: sum_list_replicate)
  note t = short_onset_curve[OF h1 h2 h3 h4 h5 h6]
  from t ne have "onset_sum_curve (replicate 44 1) 22050 =
      Inr (replicate (window_size 22050 - length (replicate 44 (1::real)) + 1)
             (sum_list (replicate 44 1)))" by blast
  then have c: "onset_sum_curve (replicate 44 1) 22050 = Inr (replicate 172 44)"
    by (simp add: window_size_default sum_list_replicate)
  from t ne have "exit_code (run ?lib ?argv) = 0" by blast
  with h1 h6 ne c show ?thesis by blast
qed

theorem short_onset_curve_counterexample:
  "length (replicate 209 (1::real)) < window_size 22050
   \<and> onset_sum_curve (replicate 209 1) 22050 = Inr [209, 209, 209, 209, 209, 209, 209]
   \<and> exit_code (run (fixed_lib (replicate 106496 0) (TempoScalar 0) [] (replicate 209 1))
       [''extract_highlight.py'', ''clip.wav'']) = 0
   \<and> stdout (run (fixed_lib (replicate 106496 0) (TempoScalar 0) [] (replicate 209 1))
       [''extract_highlight.py'', ''clip.wav'']) =
       [[(''start'', JNumber 0), (''duration'', JNumber (53248 / 11025)),
         (''confidence'', JNumber 1), (''energy_ratio'', JNumber 1)]]"
proof -
  let ?lib = "fixed_lib (replicate 106496 0) (TempoScalar 0) [] (replicate 209 1)"
  let ?argv = "[''extract_highlight.py'', ''clip.wav'']"
  have sh: "length (replicate 209 (1::real)) < window_size 22050"
    by (simp add: window_size_default)
  have r: "replicate 7 (209::real) = [209, 209, 209, 209, 209, 209, 209]"
    by (simp add: eval_nat_numeral)
  have c: "onset_sum_curve (replicate 209 1) 22050 = Inr [209, 209, 209, 209, 209, 209, 209]"
    using onset_sum_curve_short[OF sh] by (simp add: window_size_default sum_list_replicate r)
  have h1: "2 \<le> length ?argv" by simp
  have h2: "load ?lib (?argv ! 1) = Inr (replicate 106496 0, 22050)"
    by (simp add: fixed_lib_simps)
  have h3: "get_duration (replicate 106496 0) 22050 = Inr (53248 / 11025)"
    by (simp add: get_duration_def)
  have h4: "beat_track ?lib (replicate 106496 0) 22050 = Inr (TempoScalar 0, [])"
    by (simp add: fixed_lib_simps)
  have h5: "tempo_item (TempoScalar 0) = Inr 0" by simp
  have h6: "onset_strength ?lib (replicate 106496 0) 22050 = Inr (replicate 209 1)"
    by (simp add: fixed_lib_simps)
  have st: "(if 0 > 53248 / 11025 - (20::real) then max 0 (53248 / 11025 - 20)
             else 0) = (0::real)" by simp
  have du: "min 20 (53248 / 11025 - (0::real)) = 53248 / 11025" by simp
  from run_success[OF h1 h2 h3 h4 h5 h6 short_peak]
  have "exit_code (run ?lib ?argv) = 0"
       "stdout (run ?lib ?argv) = [highlight_result 0 (53248 / 11025) 1]"
    by (simp_all only: st du)
  with sh c show ?thesis by (simp add: highlight_result_def)
qed



text \<open>
  C4. When the audio loads, the onset curve is computed and the Window Energy Curve has
  mean zero, the run prints one error object and exits with code 1; it prints no Highlight
  Result at all. This holds whatever the rhythm analysis returns or raises.
\<close>

theorem zero_mean_energy_fails:
  assumes "2 \<le> length argv" and "load lib (argv ! 1) = Inr (y, sr)"
    and "onset_strength lib y sr = Inr onset_env"
    and "onset_sum_curve onset_env sr = Inr curve" and "np_mean curve = 0"
  shows "exit_code (run lib argv) = 1 \<and> (\<exists>msg. stdout (run lib argv) = [error_result msg])"
proof -
  from peak_analysis_zero_mean[OF assms(4,5)]
  obtain e where "peak_analysis onset_env sr = Inl e" ..
  from run_peak_failure[OF assms(1-3) this] show ?thesis by blast
qed

theorem zero_mean_energy_fails_witness:
  "onset_sum_curve (replicate 1292 0) 22050 = Inr (replicate 1078 0)
   \<and> np_mean (replicate 1078 0) = 0
   \<and> exit_code (run (fixed_lib (replicate 661500 0) (TempoScalar 0) [] (replicate 1292 0))
        [''extract_highlight.py'', ''silence.wav'']) = 1
   \<and> stdout (run (fixed_lib (replicate 661500 0) (TempoScalar 0) [] (replicate 1292 0))
        [''extract_highlight.py'', ''silence.wav'']) =
       [error_result (''float division by zero'' @ [CHR 0x0A] @ ''Traceback (most recent call last):'')]"
proof -
  let ?lib = "fixed_lib (replicate 661500 0) (TempoScalar 0) [] (replicate 1292 0)"
  let ?argv = "[''extract_highlight.py'', ''silence.wav'']"
  have h1: "2 \<le> length ?argv" by simp
  have h2: "load ?lib (?argv ! 1) = Inr (replicate 661500 0, 22050)" by (simp add: fixed_lib_simps)
  have h3: "onset_strength ?lib (replicate 661500 0) 22050 = Inr (replicate 1292 0)"
    by (simp add: fixed_lib_simps)
  have h5: "np_mean (replicate 1078 0) = 0" by (rule np_mean_zero) simp
  note t = zero_mean_energy_fails[OF h1 h2 h3 silent_curve h5]
  have pa: "peak_analysis (replicate 1292 0) 22050 = Inl (ZeroDivisionError ''float division by zero'')"
    unfolding peak_analysis_def silent_curve
    using np_argmax_replicate[of 1077 0] h5 by (simp add: py_truediv_def)
  have tb: "\<exists>s. try_body ?lib (?argv ! 1) startup = (Inl (ZeroDivisionError ''float division by zero''), s)"
    using h2 h3 by (simp add: try_body_def fixed_lib_simps(2) get_duration_def pa Let_def)
  then obtain s where "try_body ?lib (?argv ! 1) startup = (Inl (ZeroDivisionError ''float division by zero''), s)" ..
  from run_failure[OF h1 this] have
    "stdout (run ?lib ?argv) =
       [error_result (''float division by zero'' @ [CHR 0x0A] @ ''Traceback (most recent call last):'')]"
    by (simp add: fixed_lib_simps(4))
  with t silent_curve h5 show ?thesis by blast
qed

text \<open>
  C5. For every raw start time and track duration, lines 68 to 72 replace a start later than
  \<open>duration - 20\<close> by \<open>max(0, duration - 20)\<close> and report \<open>min(20, duration - start)\<close>
  for the start so obtained. For a track shorter than twenty seconds and a raw start that
  is not negative (as every frame time is), the start becomes 0 and the whole track length
  is reported. In a successful run the printed start and duration are these values for the
  raw start of the peak analysis and the duration of the loaded track.
\<close>

theorem boundary_policy_clamp:
  "fst (boundary_policy start_time duration s) =
     (let st = (if start_time > duration - 20 then max 0 (duration - 20) else start_time)
      in (st, min 20 (duration - st)))
   \<and> (duration < 20 \<and> 0 \<le> start_time \<longrightarrow>
        fst (boundary_policy start_time duration s) = (0, duration))
   \<and> (exit_code (run lib argv) = 0 \<and> load lib (argv ! 1) = Inr (y, sr)
        \<and> onset_strength lib y sr = Inr onset_env
        \<and> peak_analysis onset_env sr = Inr (start_time, ratio)
        \<and> duration = real (length y) / real sr \<longrightarrow>
        stdout (run lib argv) =
          [highlight_result (fst (fst (boundary_policy start_time duration s)))
                            (snd (fst (boundary_policy start_time duration s))) ratio])"
proof -
  have a: "fst (boundary_policy start_time duration s) =
     (let st = (if start_time > duration - 20 then max 0 (duration - 20) else start_time)
      in (st, min 20 (duration - st)))"
    by (simp add: boundary_policy_fst Let_def)
  have b: "duration < 20 \<and> 0 \<le> start_time \<longrightarrow>
        fst (boundary_policy start_time duration s) = (0, duration)"
    by (auto simp: boundary_policy_fst)
  have c: "exit_code (run lib argv) = 0 \<and> load lib (argv ! 1) = Inr (y, sr)
        \<and> onset_strength lib y sr = Inr onset_env
        \<and> peak_analysis onset_env sr = Inr (start_time, ratio)
        \<and> duration = real (length y) / real sr \<longrightarrow>
        stdout (run lib argv) =
          [highlight_result (fst (fst (boundary_policy start_time duration s)))
                            (snd (fst (boundary_policy start_time duration s))) ratio]"
  proof
    assume h: "exit_code (run lib argv) = 0 \<and> load lib (argv ! 1) = Inr (y, sr)
        \<and> onset_strength lib y sr = Inr onset_env
        \<and> peak_analysis onset_env sr = Inr (start_time, ratio)
        \<and> duration = real (length y) / real sr"
    from run_exit0D[of lib argv] h obtain d where
      d: "get_duration y sr = Inr d" and
      out: "stdout (run lib argv) =
              [highlight_result (if start_time > d - 20 then max 0 (d - 20) else start_time)
                 (min 20 (d - (if start_time > d - 20 then max 0 (d - 20) else start_time))) ratio]"
      by auto
    from get_duration_InrD[OF d] h have "d = duration" by simp
    with out show "stdout (run lib argv) =
          [highlight_result (fst (fst (boundary_policy start_time duration s)))
                            (snd (fst (boundary_policy start_time duration s))) ratio]"
      by (simp add: boundary_policy_fst)
  qed
  from a b c show ?thesis by blast
qed

theorem boundary_policy_clamp_witness:
  "(7936 / 1575 :: real) < 20 \<and> (0::real) \<le> 256 / 11025
   \<and> fst (boundary_policy (256 / 11025) (7936 / 1575) startup) = (0, 7936 / 1575)
   \<and> exit_code (run (fixed_lib (replicate 111104 0) (TempoScalar 0) []
        ([0, 1, 0, 1] @ replicate 211 0 @ [3, 0, 1])) [''extract_highlight.py'', ''riff.wav'']) = 0
   \<and> peak_analysis ([0, 1, 0, 1] @ replicate 211 0 @ [3, 0, 1]) 22050 = Inr (256 / 11025, 5 / 4)
   \<and> stdout (run (fixed_lib (replicate 111104 0) (TempoScalar 0) []
        ([0, 1, 0, 1] @ replicate 211 0 @ [3, 0, 1])) [''extract_highlight.py'', ''riff.wav'']) =
         [highlight_result (fst (fst (boundary_policy (256 / 11025) (7936 / 1575) startup)))
                           (snd (fst (boundary_policy (256 / 11025) (7936 / 1575) startup))) (5 / 4)]"
proof -
  let ?lib = "fixed_lib (replicate 111104 0) (TempoScalar 0) []
        ([0, 1, 0, 1] @ replicate 211 0 @ [3, 0, 1])"
  let ?argv = "[''extract_highlight.py'', ''riff.wav'']"
  have ti: "tempo_item (TempoScalar 0) = Inr 0" by simp
  note ok = tie_run[OF ti, of "[]"]
  have h1: "(7936 / 1575 :: real) < 20 \<and> (0::real) \<le> 256 / 11025" by simp
  have ld: "load ?lib (?argv ! 1) = Inr (replicate 111104 0, 22050)"
    by (simp add: fixed_lib_simps)
  have du: "(7936 / 1575 :: real) = real (length (replicate 111104 (0::real))) / real 22050"
    by simp
  have h2: "exit_code (run ?lib ?argv) = 0 \<and> load ?lib (?argv ! 1) = Inr (replicate 111104 0, 22050)
        \<and> onset_strength ?lib (replicate 111104 0) 22050 =
            Inr ([0, 1, 0, 1] @ replicate 211 0 @ [3, 0, 1])
        \<and> peak_analysis ([0, 1, 0, 1] @ replicate 211 0 @ [3, 0, 1]) 22050 = Inr (256 / 11025, 5 / 4)
        \<and> (7936 / 1575 :: real) = real (length (replicate 111104 (0::real))) / real 22050"
    using ok ld tie_onset tie_peak du by blast
  note t = boundary_policy_clamp[of "256 / 11025" "7936 / 1575" startup ?lib ?argv
      "replicate 111104 0" 22050 "[0, 1, 0, 1] @ replicate 211 0 @ [3, 0, 1]" "5 / 4"]
  from t h1 have a: "fst (boundary_policy (256 / 11025) (7936 / 1575) startup) = (0, 7936 / 1575)"
    by blast
  from t h2 have b: "stdout (run ?lib ?argv) =
         [highlight_result (fst (fst (boundary_policy (256 / 11025) (7936 / 1575) startup)))
                           (snd (fst (boundary_policy (256 / 11025) (7936 / 1575) startup))) (5 / 4)]"
    by blast
  from h1 h2 a b show ?thesis by blast
qed

text \<open>
  C6. On a non-empty curve \<open>np.argmax\<close> returns an index of the maximum, and no lower index
  holds the maximum: among equal maxima the first wins. In a successful run the printed
  start is the frame time of that index when at least twenty seconds of the track remain
  after it, and \<open>max(0, duration - 20)\<close> otherwise, where lines 68 to 70 have moved it.
\<close>

theorem first_maximum_start:
  assumes "curve \<noteq> []"
  shows "\<exists>i. np_argmax curve = Inr i \<and> i < length curve \<and> curve ! i = Max (set curve)
           \<and> (\<forall>j < length curve. curve ! j = Max (set curve) \<longrightarrow> i \<le> j)
           \<and> (exit_code (run lib argv) = 0 \<and> load lib (argv ! 1) = Inr (y, sr)
                \<and> onset_strength lib y sr = Inr onset_env
                \<and> onset_sum_curve onset_env sr = Inr curve \<longrightarrow>
               (\<exists>dur ratio. stdout (run lib argv) =
                  [[(''start'', JNumber (if frames_to_time i sr > real (length y) / real sr - 20
                                         then max 0 (real (length y) / real sr - 20)
                                         else frames_to_time i sr)),
                    (''duration'', JNumber dur),
                    (''confidence'', JNumber ratio), (''energy_ratio'', JNumber ratio)]]))"
proof -
  from np_argmax_first[OF assms] obtain i where
    i: "np_argmax curve = Inr i" "i < length curve"
       "\<forall>j < length curve. curve ! j \<le> curve ! i" "\<forall>j < i. curve ! j < curve ! i"
    by blast
  have mx: "curve ! i = Max (set curve)" using i(2,3) by (rule nth_eq_Max)
  have first: "\<forall>j < length curve. curve ! j = Max (set curve) \<longrightarrow> i \<le> j"
  proof (intro allI impI)
    fix j assume "j < length curve" "curve ! j = Max (set curve)"
    then have "\<not> curve ! j < curve ! i" using mx by simp
    with i(4) show "i \<le> j" by (meson not_le_imp_less)
  qed
  have out: "exit_code (run lib argv) = 0 \<and> load lib (argv ! 1) = Inr (y, sr)
                \<and> onset_strength lib y sr = Inr onset_env
                \<and> onset_sum_curve onset_env sr = Inr curve \<longrightarrow>
               (\<exists>dur ratio. stdout (run lib argv) =
                  [[(''start'', JNumber (if frames_to_time i sr > real (length y) / real sr - 20
                                         then max 0 (real (length y) / real sr - 20)
                                         else frames_to_time i sr)),
                    (''duration'', JNumber dur),
                    (''confidence'', JNumber ratio), (''energy_ratio'', JNumber ratio)]])"
  proof
    assume h: "exit_code (run lib argv) = 0 \<and> load lib (argv ! 1) = Inr (y, sr)
                \<and> onset_strength lib y sr = Inr onset_env
                \<and> onset_sum_curve onset_env sr = Inr curve"
    from run_exit0_output[of lib argv y sr] h obtain t0 r where
      pa: "peak_analysis onset_env sr = Inr (t0, r)" and
      o: "stdout (run lib argv) =
              [[(''start'', JNumber (if t0 > real (length y) / real sr - 20
                                     then max 0 (real (length y) / real sr - 20) else t0)),
                (''duration'', JNumber (min 20 (real (length y) / real sr -
                                     (if t0 > real (length y) / real sr - 20
                                      then max 0 (real (length y) / real sr - 20) else t0)))),
                (''confidence'', JNumber r),
                (''energy_ratio'', JNumber r)]]"
      by auto
    from peak_analysis_InrD[OF pa] h i(1) have "t0 = frames_to_time i sr" by auto
    with o show "\<exists>dur ratio. stdout (run lib argv) =
                  [[(''start'', JNumber (if frames_to_time i sr > real (length y) / real sr - 20
                                         then max 0 (real (length y) / real sr - 20)
                                         else frames_to_time i sr)),
                    (''duration'', JNumber dur),
                    (''confidence'', JNumber ratio), (''energy_ratio'', JNumber ratio)]]"
      by blast
  qed
  from i(1,2) mx first out show ?thesis by blast
qed

theorem first_maximum_start_witness:
  "[2, 5, 4, 5 :: real] \<noteq> []
   \<and> exit_code (run (fixed_lib (replicate 111104 0) (TempoScalar 0) []
        ([0, 1, 0, 1] @ replicate 211 0 @ [3, 0, 1])) [''extract_highlight.py'', ''riff.wav'']) = 0
   \<and> onset_sum_curve ([0, 1, 0, 1] @ replicate 211 0 @ [3, 0, 1]) 22050 = Inr [2, 5, 4, 5]
   \<and> np_argmax [2, 5, 4, 5] = Inr 1
   \<and> frames_to_time 1 22050 = 256 / 11025
   \<and> (if frames_to_time 1 22050 > real (length (replicate 111104 (0::real))) / real 22050 - 20
       then max 0 (real (length (replicate 111104 (0::real))) / real 22050 - 20)
       else frames_to_time 1 22050) = 0"
proof -
  let ?lib = "fixed_lib (replicate 111104 0) (TempoScalar 0) []
        ([0, 1, 0, 1] @ replicate 211 0 @ [3, 0, 1])"
  let ?argv = "[''extract_highlight.py'', ''riff.wav'']"
  have ne: "[2, 5, 4, 5 :: real] \<noteq> []" by simp
  have ti: "tempo_item (TempoScalar 0) = Inr 0" by simp
  note ok = tie_run[OF ti, of "[]"]
  have am: "np_argmax [2, 5, 4, 5] = Inr 1" by (simp add: np_argmax_def)
  have ft: "frames_to_time 1 22050 = 256 / 11025"
    by (simp add: frames_to_time_def hop_length_def)
  have cl: "(if frames_to_time 1 22050 > real (length (replicate 111104 (0::real))) / real 22050 - 20
       then max 0 (real (length (replicate 111104 (0::real))) / real 22050 - 20)
       else frames_to_time 1 22050) = 0"
    unfolding ft by simp
  from first_maximum_start[OF ne, of ?lib ?argv "replicate 111104 0" 22050
      "[0, 1, 0, 1] @ replicate 211 0 @ [3, 0, 1]"] ne ok tie_curve am ft cl
  show ?thesis by blast
qed

theorem emitted_start_counterexample:
  "onset_sum_curve ([0, 1, 0, 1] @ replicate 211 0 @ [3, 0, 1]) 22050 = Inr [2, 5, 4, 5]
   \<and> np_argmax [2, 5, 4, 5] = Inr 1
   \<and> frames_to_time 1 22050 = 256 / 11025
   \<and> exit_code (run (fixed_lib (replicate 111104 0) (TempoScalar 0) []
        ([0, 1, 0, 1] @ replicate 211 0 @ [3, 0, 1])) [''extract_highlight.py'', ''riff.wav'']) = 0
   \<and> stdout (run (fixed_lib (replicate 111104 0) (TempoScalar 0) []
        ([0, 1, 0, 1] @ replicate 211 0 @ [3, 0, 1])) [''extract_highlight.py'', ''riff.wav'']) =
       [[(''start'', JNumber 0), (''duration'', JNumber (7936 / 1575)),
         (''confidence'', JNumber (5 / 4)), (''energy_ratio'', JNumber (5 / 4))]]
   \<and> (0::real) \<noteq> 256 / 11025"
proof -
  have ti: "tempo_item (TempoScalar 0) = Inr 0" by simp
  note ok = tie_run[OF ti, of "[]"]
  have am: "np_argmax [2, 5, 4, 5] = Inr 1" by (simp add: np_argmax_def)
  have ft: "frames_to_time 1 22050 = 256 / 11025"
    by (simp add: frames_to_time_def hop_length_def)
  from ok tie_curve am ft show ?thesis by (simp add: highlight_result_def)
qed

text \<open>
  C7. With no path argument (\<open>sys.argv\<close> shorter than two entries) the script prints
  exactly the object \<open>{"error": "No audio file provided"}\<close>, exits with code 1 and never
  calls \<open>librosa.load\<close>.
\<close>

theorem missing_argument:
  assumes "length argv < 2"
  shows "stdout (run lib argv) = [[(''error'', JString ''No audio file provided'')]]
       \<and> exit_code (run lib argv) = 1
       \<and> load_calls (run lib argv) = []"
  using assms by (simp add: run_no_argument error_result_def)

theorem missing_argument_witness:
  "length [''extract_highlight.py''] < 2
   \<and> stdout (run (fixed_lib [] (TempoScalar 0) [] []) [''extract_highlight.py'']) =
       [[(''error'', JString ''No audio file provided'')]]
   \<and> exit_code (run (fixed_lib [] (TempoScalar 0) [] []) [''extract_highlight.py'']) = 1
   \<and> load_calls (run (fixed_lib [] (TempoScalar 0) [] []) [''extract_highlight.py'']) = []"
  using missing_argument[of "[''extract_highlight.py'']" "fixed_lib [] (TempoScalar 0) [] []"]
  by simp

text \<open>
  C8. On the missing-argument path the script exits with code 1 and \<open>debug_log.close()\<close>
  has not been called: line 28 leaves before any close. With a path argument both the
  success path and the failure path close the log (lines 82 and 87).
\<close>

theorem missing_argument_leaves_log_open:
  "log_closed (run lib [''extract_highlight.py'']) = False
   \<and> exit_code (run lib [''extract_highlight.py'']) = 1"
  by (simp add: run_no_argument)

text \<open>
  C9. Two runs that differ only in what the rhythm analysis returns (a tempo that line 46
  can coerce to a scalar, and any beat sequence) print the same output and exit with the
  same code.
\<close>

theorem rhythm_does_not_influence_result:
  assumes "tempo_item tempo_a = Inr ta" and "tempo_item tempo_b = Inr tb"
  shows "stdout (run (lib\<lparr>beat_track := \<lambda>y sr. Inr (tempo_a, beats_a)\<rparr>) argv) =
         stdout (run (lib\<lparr>beat_track := \<lambda>y sr. Inr (tempo_b, beats_b)\<rparr>) argv)
       \<and> exit_code (run (lib\<lparr>beat_track := \<lambda>y sr. Inr (tempo_a, beats_a)\<rparr>) argv) =
         exit_code (run (lib\<lparr>beat_track := \<lambda>y sr. Inr (tempo_b, beats_b)\<rparr>) argv)"
  using assms
  by (auto simp: run_def try_body_def Let_def split_def log_debug_def print_json_def
      close_log_def sys_exit_def boundary_policy_def startup_def load_def onset_strength_def
      split: sum.splits prod.splits)

theorem rhythm_does_not_influence_result_witness:
  "tempo_item (TempoScalar 120) = Inr 120 \<and> tempo_item (TempoArray [90]) = Inr 90
   \<and> stdout (run ((fixed_lib (replicate 111104 0) (TempoScalar 0) []
                      ([0, 1, 0, 1] @ replicate 211 0 @ [3, 0, 1]))
                    \<lparr>beat_track := \<lambda>y sr. Inr (TempoScalar 120, [43, 86])\<rparr>)
               [''extract_highlight.py'', ''riff.wav'']) = [highlight_result 0 (7936 / 1575) (5 / 4)]
   \<and> stdout (run ((fixed_lib (replicate 111104 0) (TempoScalar 0) []
                      ([0, 1, 0, 1] @ replicate 211 0 @ [3, 0, 1]))
                    \<lparr>beat_track := \<lambda>y sr. Inr (TempoArray [90], [])\<rparr>)
               [''extract_highlight.py'', ''riff.wav'']) = [highlight_result 0 (7936 / 1575) (5 / 4)]
   \<and> exit_code (run ((fixed_lib (replicate 111104 0) (TempoScalar 0) []
                      ([0, 1, 0, 1] @ replicate 211 0 @ [3, 0, 1]))
                    \<lparr>beat_track := \<lambda>y sr. Inr (TempoScalar 120, [43, 86])\<rparr>)
               [''extract_highlight.py'', ''riff.wav'']) =
     exit_code (run ((fixed_lib (replicate 111104 0) (TempoScalar 0) []
                      ([0, 1, 0, 1] @ replicate 211 0 @ [3, 0, 1]))
                    \<lparr>beat_track := \<lambda>y sr. Inr (TempoArray [90], [])\<rparr>)
               [''extract_highlight.py'', ''riff.wav''])"
proof -
  have h1: "tempo_item (TempoScalar 120) = Inr 120" by simp
  have h2: "tempo_item (TempoArray [90]) = Inr 90" by simp
  note t = rhythm_does_not_influence_result[OF h1 h2,
      where lib = "fixed_lib (replicate 111104 0) (TempoScalar 0) []
                      ([0, 1, 0, 1] @ replicate 211 0 @ [3, 0, 1])"
        and beats_a = "[43, 86]" and beats_b = "[]"
        and argv = "[''extract_highlight.py'', ''riff.wav'']"]
  note a = tie_run[OF h1, of "[43, 86]"]
  from t a h1 h2 show ?thesis by (simp only: fixed_lib_update)
qed

text \<open>
  C10. In a successful run the printed \<open>energy_ratio\<close>, which is also the printed
  \<open>confidence\<close>, is at least \<open>1 - (n + 3) * 2^-53\<close>, where \<open>n\<close> is the length of the Window
  Energy Curve: the peak is the maximum of the curve, and the rounded mean of \<open>np.mean\<close>
  exceeds the maximum by at most the rounding of its \<open>n\<close> additions and one division. The
  ratio can be below 1.
\<close>

theorem energy_ratio_near_one:
  assumes "exit_code (run lib argv) = 0" and "load lib (argv ! 1) = Inr (y, sr)"
    and "onset_strength lib y sr = Inr onset_env"
    and "onset_sum_curve onset_env sr = Inr curve"
  shows "\<exists>start dur ratio.
           stdout (run lib argv) =
             [[(''start'', JNumber start), (''duration'', JNumber dur),
               (''confidence'', JNumber ratio), (''energy_ratio'', JNumber ratio)]]
         \<and> 1 - real (length curve + 3) * unit_roundoff \<le> ratio"
proof -
  from run_exit0_output[OF assms(1,2)] assms(3) obtain t0 r where
    pa: "peak_analysis onset_env sr = Inr (t0, r)" and
    out: "stdout (run lib argv) =
              [[(''start'', JNumber (if t0 > real (length y) / real sr - 20
                                     then max 0 (real (length y) / real sr - 20) else t0)),
                (''duration'', JNumber (min 20 (real (length y) / real sr -
                                     (if t0 > real (length y) / real sr - 20
                                      then max 0 (real (length y) / real sr - 20) else t0)))),
                (''confidence'', JNumber r),
                (''energy_ratio'', JNumber r)]]"
    by auto
  have nn: "\<forall>x \<in> set onset_env. 0 \<le> x" using assms(3) by (rule onset_strength_nonneg)
  from peak_ratio_bound[OF pa nn assms(4)] out show ?thesis by blast
qed

theorem energy_ratio_near_one_witness:
  "exit_code (run (fixed_lib (replicate 111104 0) (TempoScalar 0) []
        ([0, 1, 0, 1] @ replicate 211 0 @ [3, 0, 1])) [''extract_highlight.py'', ''riff.wav'']) = 0
   \<and> onset_sum_curve ([0, 1, 0, 1] @ replicate 211 0 @ [3, 0, 1]) 22050 = Inr [2, 5, 4, 5]
   \<and> stdout (run (fixed_lib (replicate 111104 0) (TempoScalar 0) []
        ([0, 1, 0, 1] @ replicate 211 0 @ [3, 0, 1])) [''extract_highlight.py'', ''riff.wav'']) =
       [[(''start'', JNumber 0), (''duration'', JNumber (7936 / 1575)),
         (''confidence'', JNumber (5 / 4)), (''energy_ratio'', JNumber (5 / 4))]]
   \<and> 1 - real (length [2, 5, 4, 5 :: real] + 3) * unit_roundoff \<le> 5 / 4"
proof -
  let ?lib = "fixed_lib (replicate 111104 0) (TempoScalar 0) []
        ([0, 1, 0, 1] @ replicate 211 0 @ [3, 0, 1])"
  let ?argv = "[''extract_highlight.py'', ''riff.wav'']"
  have ti: "tempo_item (TempoScalar 0) = Inr 0" by simp
  note ok = tie_run[OF ti, of "[]"]
  have ld: "load ?lib (?argv ! 1) = Inr (replicate 111104 0, 22050)"
    by (simp add: fixed_lib_simps)
  have out: "stdout (run ?lib ?argv) =
       [[(''start'', JNumber 0), (''duration'', JNumber (7936 / 1575)),
         (''confidence'', JNumber (5 / 4)), (''energy_ratio'', JNumber (5 / 4))]]"
    using ok by (simp add: highlight_result_def)
  from energy_ratio_near_one[OF conjunct1[OF ok] ld tie_onset tie_curve]
  obtain start dur ratio where
    r: "stdout (run ?lib ?argv) =
             [[(''start'', JNumber start), (''duration'', JNumber dur),
               (''confidence'', JNumber ratio), (''energy_ratio'', JNumber ratio)]]"
       "1 - real (length [2, 5, 4, 5 :: real] + 3) * unit_roundoff \<le> ratio"
    by blast
  from r(1) out have "ratio = 5 / 4" by simp
  with r(2) have "1 - real (length [2, 5, 4, 5 :: real] + 3) * unit_roundoff \<le> 5 / 4" by simp
  with ok tie_curve out show ?thesis by blast
qed

theorem energy_ratio_below_one_counterexample:
  "exit_code (run (fixed_lib (replicate 112128 0) (TempoScalar 0) []
           ([1, 3 / 2 ^ 51] @ replicate 213 0 @ [1, 3 / 2 ^ 51, 0, 0, 0]))
        [''extract_highlight.py'', ''click.wav'']) = 0
   \<and> stdout (run (fixed_lib (replicate 112128 0) (TempoScalar 0) []
           ([1, 3 / 2 ^ 51] @ replicate 213 0 @ [1, 3 / 2 ^ 51, 0, 0, 0]))
        [''extract_highlight.py'', ''click.wav'']) =
       [[(''start'', JNumber 0), (''duration'', JNumber (18688 / 3675)),
         (''confidence'', JNumber (4503599627370495 / 4503599627370496)),
         (''energy_ratio'', JNumber (4503599627370495 / 4503599627370496))]]
   \<and> (4503599627370495 / 4503599627370496 :: real) < 1"
  using click_run by (simp add: highlight_result_def)

end
